theory Spec2Isabelle
  imports Main "HOL-Library.Sublist"
begin

section \<open>Python strings\<close>

text \<open>
  A Python \<open>str\<close> is a sequence of Unicode code points. It is modelled as a list of
  natural numbers, one per code point, so that the results of percent-decoding and of
  character references (which leave the 8-bit range) are values of the model.
  String constants of the source are written \<open>lit ''...''\<close>.
\<close>

type_synonym codepoint = nat
type_synonym str = "codepoint list"

definition lit :: "string \<Rightarrow> str" where
  "lit s = map of_char s"

text \<open>\<open>s.startswith(p)\<close> and \<open>s.endswith(p)\<close>.\<close>

definition startswith :: "str \<Rightarrow> str \<Rightarrow> bool" where
  "startswith s p = (take (length p) s = p)"

definition endswith :: "str \<Rightarrow> str \<Rightarrow> bool" where
  "endswith s p = (length p \<le> length s \<and> drop (length s - length p) s = p)"

text \<open>
  \<open>s.split(c)\<close> for a separator of one character: the pieces between the occurrences
  of \<open>c\<close>; the result is never empty (\<open>''.split('/') == ['']\<close>).
\<close>

fun split_on :: "codepoint \<Rightarrow> str \<Rightarrow> str list" where
  "split_on c [] = [[]]"
| "split_on c (x # xs) =
     (if x = c then [] # split_on c xs
      else (case split_on c xs of
              [] \<Rightarrow> [[x]]
            | p # ps \<Rightarrow> (x # p) # ps))"

text \<open>\<open>sep.join(parts)\<close>.\<close>

fun join :: "str \<Rightarrow> str list \<Rightarrow> str" where
  "join sep [] = []"
| "join sep [p] = p"
| "join sep (p # q # ps) = p @ sep @ join sep (q # ps)"

text \<open>\<open>s.lstrip(chars)\<close>, \<open>s.rstrip(chars)\<close> and \<open>s.strip(chars)\<close> with an explicit
  set of characters.\<close>

definition lstrip_chars :: "str \<Rightarrow> str \<Rightarrow> str" where
  "lstrip_chars chars s = dropWhile (\<lambda>c. c \<in> set chars) s"

definition rstrip_chars :: "str \<Rightarrow> str \<Rightarrow> str" where
  "rstrip_chars chars s = rev (dropWhile (\<lambda>c. c \<in> set chars) (rev s))"

definition strip_chars :: "str \<Rightarrow> str \<Rightarrow> str" where
  "strip_chars chars s = rstrip_chars chars (lstrip_chars chars s)"

text \<open>
  \<open>s.strip()\<close> without an argument removes the characters for which
  \<open>str.isspace\<close> holds; these are all of them.
\<close>

definition whitespace :: "codepoint list" where
  "whitespace =
     [9, 10, 11, 12, 13, 28, 29, 30, 31, 32, 133, 160, 5760,
      8192, 8193, 8194, 8195, 8196, 8197, 8198, 8199, 8200, 8201, 8202,
      8232, 8233, 8239, 8287, 12288]"

definition strip :: "str \<Rightarrow> str" where
  "strip s = strip_chars whitespace s"

text \<open>\<open>s.replace(old, new)\<close> where \<open>old\<close> is one character.\<close>

definition replace_chr :: "codepoint \<Rightarrow> str \<Rightarrow> str \<Rightarrow> str" where
  "replace_chr old new s = concat (map (\<lambda>c. if c = old then new else [c]) s)"

text \<open>
  Exceptions are values: the class of the exception and the text \<open>str(e)\<close> that
  the handler interpolates into its error response.
\<close>

datatype exn = Exn (exn_class: string) (exn_text: str)

text \<open>\<open>xs[0]\<close> raises \<open>IndexError\<close> on an empty list.\<close>

definition index0 :: "'a list \<Rightarrow> exn + 'a" where
  "index0 xs = (case xs of
                  [] \<Rightarrow> Inl (Exn ''IndexError'' (lit ''list index out of range''))
                | x # _ \<Rightarrow> Inr x)"

text \<open>
  A text put in front of the result of the steps that follow, which may have raised.
\<close>

definition prepend :: "str \<Rightarrow> exn + str \<Rightarrow> exn + str" where
  "prepend r rest = (case rest of Inl ex \<Rightarrow> Inl ex | Inr t \<Rightarrow> Inr (r @ t))"

text \<open>\<open>str(n)\<close> and \<open>'%d' % n\<close> for a number \<open>n\<close> that is not negative.\<close>

function decimal :: "nat \<Rightarrow> str" where
  "decimal n = (if n < 10 then [48 + n] else decimal (n div 10) @ [48 + n mod 10])"
  by pat_completeness auto
termination
  by (relation "measure (\<lambda>n. n)") auto

declare decimal.simps [simp del]

section \<open>Title derivation\<close>

text \<open>
  The title step of \<open>serve_markdown\<close>:
  \<^verbatim>\<open>
  title = "Documentation"
  if content.startswith('#'):
      title = content.split('\n')[0].lstrip('#').strip()
  \<close>
\<close>

definition derive_title :: "str \<Rightarrow> exn + str" where
  "derive_title content =
     (if startswith content (lit ''#'') then
        (case index0 (split_on 10 content) of
           Inl e \<Rightarrow> Inl e
         | Inr line \<Rightarrow> Inr (strip (lstrip_chars (lit ''#'') line)))
      else Inr (lit ''Documentation''))"

text \<open>The first line of a text: everything before its first newline.\<close>

definition first_line :: "str \<Rightarrow> str" where
  "first_line content = takeWhile (\<lambda>c. c \<noteq> 10) content"

section \<open>Breadcrumb navigation\<close>

text \<open>
  \<open>str.title()\<close>: a cased character becomes upper case when the character before it is
  not cased and lower case when it is. On a text of ASCII characters the cased characters
  are the letters, and \<open>title_from\<close> is the loop of the interpreter. The case tables of
  Unicode are not part of the repository: what \<open>str.title()\<close> returns for a text that
  holds a character outside ASCII is the parameter \<open>unicode_title\<close>.
\<close>

definition is_upper :: "codepoint \<Rightarrow> bool" where
  "is_upper c = (65 \<le> c \<and> c \<le> 90)"

definition is_lower :: "codepoint \<Rightarrow> bool" where
  "is_lower c = (97 \<le> c \<and> c \<le> 122)"

fun title_from :: "bool \<Rightarrow> str \<Rightarrow> str" where
  "title_from previous_is_cased [] = []"
| "title_from previous_is_cased (c # cs) =
     (if previous_is_cased then (if is_upper c then c + 32 else c)
      else (if is_lower c then c - 32 else c))
     # title_from (is_upper c \<or> is_lower c) cs"

definition title :: "(str \<Rightarrow> str) \<Rightarrow> str \<Rightarrow> str" where
  "title unicode_title s =
     (if list_all (\<lambda>c. c < 128) s then title_from False s else unicode_title s)"

text \<open>
  \<^verbatim>\<open>
  def generate_breadcrumb(self, path):
      parts = path.strip('/').split('/')
      breadcrumb_parts = ['<a href="/">Home</a>']
      current_path = ""
      for part in parts[:-1]:  # Exclude filename
          current_path += f"/{part}"
          part_name = part.replace('_', ' ').title()
          breadcrumb_parts.append(f'<a href="{current_path}/">{part_name}</a>')
      if len(breadcrumb_parts) > 1:
          return f'<div class="breadcrumb">{" > ".join(breadcrumb_parts)}</div>'
      return ""
  \<close>
  The loop is \<open>breadcrumb_loop\<close>, with \<open>current_path\<close> and \<open>breadcrumb_parts\<close> as its state.
\<close>

fun breadcrumb_loop ::
  "(str \<Rightarrow> str) \<Rightarrow> str list \<Rightarrow> str \<Rightarrow> str list \<Rightarrow> str list" where
  "breadcrumb_loop unicode_title [] current_path breadcrumb_parts = breadcrumb_parts"
| \<open>breadcrumb_loop unicode_title (part # rest) current_path breadcrumb_parts =
     (let current_path = current_path @ lit ''/'' @ part;
          part_name = title unicode_title (replace_chr 95 (lit '' '') part)
      in breadcrumb_loop unicode_title rest current_path
           (breadcrumb_parts @
            [lit ''<a href="'' @ current_path @ lit ''/">'' @ part_name @ lit ''</a>'']))\<close>

definition generate_breadcrumb :: "(str \<Rightarrow> str) \<Rightarrow> str \<Rightarrow> str" where
  \<open>generate_breadcrumb unicode_title path =
     (let parts = split_on 47 (strip_chars (lit ''/'') path);
          breadcrumb_parts =
            breadcrumb_loop unicode_title (butlast parts) [] [lit ''<a href="/">Home</a>'']
      in if length breadcrumb_parts > 1
         then lit ''<div class="breadcrumb">'' @ join (lit '' > '') breadcrumb_parts @ lit ''</div>''
         else [])\<close>

text \<open>
  The words of the specification for one breadcrumb entry: a link with a label; the link
  of a directory is the accumulated prefix of the segments down to it, and its label is
  the segment with underscores replaced by spaces and every word capitalised.
\<close>

definition crumb_entry :: "str \<Rightarrow> str \<Rightarrow> str" where
  \<open>crumb_entry link label = lit ''<a href="'' @ link @ lit ''">'' @ label @ lit ''</a>''\<close>

definition accumulated_prefix :: "str list \<Rightarrow> str" where
  "accumulated_prefix segs = concat (map (\<lambda>p. 47 # p) segs) @ [47]"

definition crumb_label :: "(str \<Rightarrow> str) \<Rightarrow> str \<Rightarrow> str" where
  "crumb_label unicode_title seg = title unicode_title (replace_chr 95 [32] seg)"

text \<open>The parameter of the concrete runs, which are on ASCII paths.\<close>

definition ascii_title :: "str \<Rightarrow> str" where
  "ascii_title s = title_from False s"

section \<open>Regular expressions\<close>

text \<open>
  The pattern of \<open>process_mermaid_blocks\<close> is built from literal text, the greedy class
  repetition \<open>[^c]*\<close> and the lazy capturing group \<open>(.*?)\<close>, which under \<open>re.DOTALL\<close>
  takes any character. A pattern is the list of its items. \<open>re_match\<close> is the
  backtracking matcher of \<open>re\<close> anchored at the start of the text: a greedy repetition
  tries the longest run first and gives characters back, a lazy group tries the shortest
  first. The result is the text of group 1 and the text left after the match.
\<close>

datatype re_item = Lit str | NotCharStar codepoint | GroupLazyAny

fun re_match :: "re_item list \<Rightarrow> str \<Rightarrow> (str \<times> str) option" where
  "re_match [] s = Some ([], s)"
| "re_match (Lit l # p) s =
     (if startswith s l then re_match p (drop (length l) s) else None)"
| "re_match (NotCharStar c # p) [] = re_match p []"
| "re_match (NotCharStar c # p) (x # xs) =
     (if x \<noteq> c then
        (case re_match (NotCharStar c # p) xs of
           Some r \<Rightarrow> Some r
         | None \<Rightarrow> re_match p (x # xs))
      else re_match p (x # xs))"
| "re_match (GroupLazyAny # p) s =
     (case re_match p s of
        Some (_, rest) \<Rightarrow> Some ([], rest)
      | None \<Rightarrow>
          (case s of
             [] \<Rightarrow> None
           | x # xs \<Rightarrow>
               (case re_match (GroupLazyAny # p) xs of
                  Some (g, rest) \<Rightarrow> Some (x # g, rest)
                | None \<Rightarrow> None)))"

text \<open>
  \<open>re.sub(pattern, repl, string)\<close> with a function \<open>repl\<close> of the text of group 1: the
  matches are found from left to right, the search resumes where a match ends, and the
  text between the matches is copied. After an empty match the search moves on by one
  character. \<open>repl\<close> is called for each match when it is found; an exception that it
  raises ends the substitution and is the result.
\<close>

fun re_sub :: "re_item list \<Rightarrow> (str \<Rightarrow> exn + str) \<Rightarrow> str \<Rightarrow> exn + str" where
  "re_sub p repl [] = (case re_match p [] of Some (g, _) \<Rightarrow> repl g | None \<Rightarrow> Inr [])"
| "re_sub p repl (c # cs) =
     (case re_match p (c # cs) of
        Some (g, rest) \<Rightarrow>
          (case repl g of
             Inl ex \<Rightarrow> Inl ex
           | Inr r \<Rightarrow>
               if length rest < length (c # cs) then prepend r (re_sub p repl rest)
               else prepend (r @ [c]) (re_sub p repl cs))
      | None \<Rightarrow> prepend [c] (re_sub p repl cs))"

section \<open>Character references\<close>

text \<open>
  \<open>html.unescape\<close> of the standard library:
  \<^verbatim>\<open>
  _charref = _re.compile(r'&(#[0-9]+;?'
                         r'|#[xX][0-9a-fA-F]+;?'
                         r'|[^\t\n\f <&#;]{1,32};?)')

  def unescape(s):
      if '&' not in s:
          return s
      return _charref.sub(_replace_charref, s)
  \<close>
  \<open>charref_group\<close> is the text of group 1 when \<open>_charref\<close> matches at an ampersand, given
  the text after the ampersand; the three alternatives are tried in their order.
\<close>

definition is_digit :: "codepoint \<Rightarrow> bool" where
  "is_digit c = (48 \<le> c \<and> c \<le> 57)"

definition is_hexdigit :: "codepoint \<Rightarrow> bool" where
  "is_hexdigit c = (is_digit c \<or> (65 \<le> c \<and> c \<le> 70) \<or> (97 \<le> c \<and> c \<le> 102))"

definition name_char :: "codepoint \<Rightarrow> bool" where
  "name_char c = (c \<notin> set [9, 10, 12, 32, 60, 38, 35, 59])"

definition opt_semicolon :: "str \<Rightarrow> str" where
  "opt_semicolon s = (if startswith s (lit '';'') then lit '';'' else [])"

definition charref_group :: "str \<Rightarrow> str option" where
  "charref_group s =
     (case s of
        [] \<Rightarrow> None
      | c # t \<Rightarrow>
          if c = 35 then
            (case t of
               [] \<Rightarrow> None
             | x # h \<Rightarrow>
                 if is_digit x then
                   Some (35 # takeWhile is_digit t @ opt_semicolon (dropWhile is_digit t))
                 else if (x = 120 \<or> x = 88) \<and> takeWhile is_hexdigit h \<noteq> [] then
                   Some (35 # x # takeWhile is_hexdigit h @ opt_semicolon (dropWhile is_hexdigit h))
                 else None)
          else
            (let name = take 32 (takeWhile name_char s) in
             if name = [] then None
             else Some (name @ opt_semicolon (drop (length name) s))))"

text \<open>
  \<open>int(digits, 16)\<close> and \<open>int(digits)\<close> on a text of hexadecimal or decimal digits.
  Python 3.11 refuses a decimal text of more than \<open>sys.get_int_max_str_digits()\<close>
  digits, 4300 unless the interpreter is started with another limit, with a
  \<open>ValueError\<close>; leading zeros count, and a text in base 16 has no limit.
\<close>

definition digit_value :: "codepoint \<Rightarrow> nat" where
  "digit_value c =
     (if is_digit c then c - 48
      else if 97 \<le> c then c - 87
      else c - 55)"

definition int_of_digits :: "nat \<Rightarrow> str \<Rightarrow> nat" where
  "int_of_digits base ds = foldl (\<lambda>n d. base * n + digit_value d) 0 ds"

definition int_max_str_digits :: nat where
  "int_max_str_digits = 4300"

definition int_decimal :: "str \<Rightarrow> exn + nat" where
  "int_decimal ds =
     (if int_max_str_digits < length ds then
        Inl (Exn ''ValueError''
               (lit ''Exceeds the limit ('' @ decimal int_max_str_digits @
                lit '' digits) for integer string conversion: value has '' @
                decimal (length ds) @
                lit '' digits; use sys.set_int_max_str_digits() to increase the limit''))
      else Inr (int_of_digits 10 ds))"

text \<open>The tables \<open>_invalid_charrefs\<close> and \<open>_invalid_codepoints\<close> of the module.\<close>

definition invalid_charrefs :: "(nat \<times> str) list" where
  "invalid_charrefs =
     [(0, [65533]), (13, [13]), (128, [8364]), (129, [129]), (130, [8218]), (131, [402]),
      (132, [8222]), (133, [8230]), (134, [8224]), (135, [8225]), (136, [710]),
      (137, [8240]), (138, [352]), (139, [8249]), (140, [338]), (141, [141]), (142, [381]),
      (143, [143]), (144, [144]), (145, [8216]), (146, [8217]), (147, [8220]),
      (148, [8221]), (149, [8226]), (150, [8211]), (151, [8212]), (152, [732]),
      (153, [8482]), (154, [353]), (155, [8250]), (156, [339]), (157, [157]), (158, [382]),
      (159, [376])]"

definition invalid_codepoint :: "nat \<Rightarrow> bool" where
  "invalid_codepoint n =
     ((1 \<le> n \<and> n \<le> 8) \<or> n = 11 \<or> (14 \<le> n \<and> n \<le> 31) \<or> (127 \<le> n \<and> n \<le> 159)
      \<or> (64976 \<le> n \<and> n \<le> 65007) \<or> (n \<le> 1114111 \<and> 65534 \<le> n mod 65536))"

text \<open>
  \<^verbatim>\<open>
  def _replace_charref(s):
      s = s.group(1)
      if s[0] == '#':
          # numeric charref
          if s[1] in 'xX':
              num = int(s[2:].rstrip(';'), 16)
          else:
              num = int(s[1:].rstrip(';'))
          if num in _invalid_charrefs:
              return _invalid_charrefs[num]
          if 0xD800 <= num <= 0xDFFF or num > 0x10FFFF:
              return chr(0xFFFD)
          if num in _invalid_codepoints:
              return ''
          return chr(num)
      else:
          # named charref
          if s in _html5:
              return _html5[s]
          # find the longest matching name (as defined by the standard)
          for x in range(len(s)-1, 1, -1):
              if s[:x] in _html5:
                  return _html5[s[:x]] + s[x:]
          else:
              return '&' + s
  \<close>
  The table \<open>html.entities.html5\<close> of the named references (2231 entries) is the
  parameter \<open>html5\<close>. \<open>longest_name\<close> is the loop over \<open>x\<close>. A group of \<open>_charref\<close>
  is never empty and one that starts with \<open>#\<close> has a second character, so the last
  equation of \<open>replace_charref\<close> is reached by a named reference of one character only.
  The one step that can raise is \<open>int\<close> on a decimal reference.
\<close>

definition numeric_charref :: "nat \<Rightarrow> str" where
  "numeric_charref num =
     (case map_of invalid_charrefs num of
        Some r \<Rightarrow> r
      | None \<Rightarrow>
          if (55296 \<le> num \<and> num \<le> 57343) \<or> num > 1114111 then [65533]
          else if invalid_codepoint num then []
          else [num])"

fun longest_name :: "(str \<Rightarrow> str option) \<Rightarrow> str \<Rightarrow> nat \<Rightarrow> str" where
  "longest_name html5 s 0 = 38 # s"
| "longest_name html5 s (Suc n) =
     (if Suc n \<le> 1 then 38 # s
      else (case html5 (take (Suc n) s) of
              Some r \<Rightarrow> r @ drop (Suc n) s
            | None \<Rightarrow> longest_name html5 s n))"

definition named_charref :: "(str \<Rightarrow> str option) \<Rightarrow> str \<Rightarrow> str" where
  "named_charref html5 s =
     (case html5 s of
        Some r \<Rightarrow> r
      | None \<Rightarrow> longest_name html5 s (length s - 1))"

fun replace_charref :: "(str \<Rightarrow> str option) \<Rightarrow> str \<Rightarrow> exn + str" where
  "replace_charref html5 (c # x # rest) =
     (if c = 35 then
        (case (if x = 120 \<or> x = 88
               then Inr (int_of_digits 16 (rstrip_chars (lit '';'') rest))
               else int_decimal (rstrip_chars (lit '';'') (x # rest))) of
           Inl ex \<Rightarrow> Inl ex
         | Inr num \<Rightarrow> Inr (numeric_charref num))
      else Inr (named_charref html5 (c # x # rest)))"
| "replace_charref html5 s = Inr (named_charref html5 s)"

text \<open>
  \<open>_charref.sub(_replace_charref, s)\<close>: the references are replaced from left to right, and
  the first exception of \<open>_replace_charref\<close> is the result.
\<close>

fun charref_sub :: "(str \<Rightarrow> str option) \<Rightarrow> str \<Rightarrow> exn + str" where
  "charref_sub html5 [] = Inr []"
| "charref_sub html5 (c # cs) =
     (if c = 38 then
        (case charref_group cs of
           Some g \<Rightarrow>
             (case replace_charref html5 g of
                Inl ex \<Rightarrow> Inl ex
              | Inr r \<Rightarrow> prepend r (charref_sub html5 (drop (length g) cs)))
         | None \<Rightarrow> prepend [c] (charref_sub html5 cs))
      else prepend [c] (charref_sub html5 cs))"

definition unescape :: "(str \<Rightarrow> str option) \<Rightarrow> str \<Rightarrow> exn + str" where
  "unescape html5 s = (if 38 \<notin> set s then Inr s else charref_sub html5 s)"

section \<open>Diagram blocks\<close>

text \<open>
  \<^verbatim>\<open>
  def process_mermaid_blocks(self, html_content):
      pattern = r'<pre[^>]*><code class="language-mermaid">(.*?)</code></pre>'

      def replace_mermaid(match):
          mermaid_code = html.unescape(match.group(1))
          return f'<div class="mermaid">{mermaid_code}</div>'

      html_content = re.sub(pattern, replace_mermaid, html_content, flags=re.DOTALL)
      return html_content
  \<close>
  The function of \<open>debug_mermaid.py\<close> of the same name has the same body.
\<close>

definition MERMAID_PATTERN :: "re_item list" where
  \<open>MERMAID_PATTERN =
     [Lit (lit ''<pre''), NotCharStar 62, Lit (lit ''><code class="language-mermaid">''),
      GroupLazyAny, Lit (lit ''</code></pre>'')]\<close>

definition replace_mermaid :: "(str \<Rightarrow> str option) \<Rightarrow> str \<Rightarrow> exn + str" where
  \<open>replace_mermaid html5 group1 =
     (case unescape html5 group1 of
        Inl ex \<Rightarrow> Inl ex
      | Inr mermaid_code \<Rightarrow> Inr (lit ''<div class="mermaid">'' @ mermaid_code @ lit ''</div>''))\<close>

definition process_mermaid_blocks :: "(str \<Rightarrow> str option) \<Rightarrow> str \<Rightarrow> exn + str" where
  "process_mermaid_blocks html5 html_content =
     re_sub MERMAID_PATTERN (replace_mermaid html5) html_content"

text \<open>
  The encoder of the markdown library for the text of a code block (the same four
  replacements in its fenced-code and its highlighting extension):
  \<^verbatim>\<open>
  txt = txt.replace('&', '&amp;')
  txt = txt.replace('<', '&lt;')
  txt = txt.replace('>', '&gt;')
  txt = txt.replace('"', '&quot;')
  \<close>
\<close>

definition code_escape :: "str \<Rightarrow> str" where
  "code_escape txt =
     replace_chr 34 (lit ''&quot;'')
       (replace_chr 62 (lit ''&gt;'')
          (replace_chr 60 (lit ''&lt;'')
             (replace_chr 38 (lit ''&amp;'') txt)))"

text \<open>A table with a few of the entries of \<open>html.entities.html5\<close>, for concrete runs.\<close>

definition sample_html5 :: "str \<Rightarrow> str option" where
  \<open>sample_html5 =
     map_of [(lit ''amp;'', lit ''&''), (lit ''lt;'', lit ''<''), (lit ''gt;'', lit ''>''),
             (lit ''quot;'', [34]), (lit ''nbsp;'', [160])]\<close>

text \<open>
  The two forms the specification names: a span of the pattern's form with the text of its
  attributes and its body, and the element that replaces it.
\<close>

definition mermaid_span :: "str \<Rightarrow> str \<Rightarrow> str" where
  \<open>mermaid_span attrs body =
     lit ''<pre'' @ attrs @ lit ''><code class="language-mermaid">'' @ body @ lit ''</code></pre>''\<close>

definition mermaid_div :: "str \<Rightarrow> str" where
  \<open>mermaid_div body = lit ''<div class="mermaid">'' @ body @ lit ''</div>''\<close>

text \<open>
  The positions of a text at which a span of the pattern's form begins, counted from
  position \<open>i\<close> of the whole text.
\<close>

fun span_starts_from :: "nat \<Rightarrow> str \<Rightarrow> nat list" where
  "span_starts_from i [] = []"
| "span_starts_from i (c # cs) =
     (if re_match MERMAID_PATTERN (c # cs) \<noteq> None then i # span_starts_from (Suc i) cs
      else span_starts_from (Suc i) cs)"

definition span_starts :: "str \<Rightarrow> nat list" where
  "span_starts s = span_starts_from 0 s"

text \<open>The four entries of \<open>html.entities.html5\<close> that the encoder's output refers to.\<close>

definition markup_entities :: "(str \<Rightarrow> str option) \<Rightarrow> bool" where
  \<open>markup_entities html5 =
     (html5 (lit ''amp;'') = Some (lit ''&'') \<and> html5 (lit ''lt;'') = Some (lit ''<'') \<and>
      html5 (lit ''gt;'') = Some (lit ''>'') \<and> html5 (lit ''quot;'') = Some [34])\<close>

text \<open>
  What the encoder writes for one character, and what a table of named references makes
  of that.
\<close>

definition escape_char :: "codepoint \<Rightarrow> str" where
  "escape_char c =
     (if c = 38 then lit ''&amp;'' else if c = 60 then lit ''&lt;''
      else if c = 62 then lit ''&gt;'' else if c = 34 then lit ''&quot;'' else [c])"

definition unescaped_char :: "(str \<Rightarrow> str option) \<Rightarrow> codepoint \<Rightarrow> str" where
  "unescaped_char html5 c =
     (if c = 38 then named_charref html5 (lit ''amp;'')
      else if c = 60 then named_charref html5 (lit ''lt;'')
      else if c = 62 then named_charref html5 (lit ''gt;'')
      else if c = 34 then named_charref html5 (lit ''quot;'')
      else [c])"

section \<open>Request paths\<close>

text \<open>
  \<open>urllib.parse.unquote_to_bytes\<close> on a run of ASCII text: the text is split at \<open>%\<close>, and
  an item that starts with two hexadecimal digits is replaced by the byte they name; any
  other \<open>%\<close> is kept. The scan from left to right gives the same bytes.
\<close>

fun unquote_to_bytes :: "str \<Rightarrow> nat list" where
  "unquote_to_bytes [] = []"
| "unquote_to_bytes (c # cs) =
     (if c = 37 then
        (case cs of
           h1 # h2 # rest \<Rightarrow>
             if is_hexdigit h1 \<and> is_hexdigit h2
             then (16 * digit_value h1 + digit_value h2) # unquote_to_bytes rest
             else 37 # unquote_to_bytes cs
         | _ \<Rightarrow> 37 # unquote_to_bytes cs)
      else c # unquote_to_bytes cs)"

text \<open>
  \<open>bytes.decode('utf-8', 'replace')\<close>: one step reads a character, or an ill-formed
  sequence that becomes U+FFFD. \<open>utf8_step b bs\<close> is the code point and the number of
  the bytes \<open>bs\<close> after the lead byte \<open>b\<close> that the step takes with it. A sequence cut
  short by the end of the data is one error.
\<close>

definition continuation :: "nat \<Rightarrow> bool" where
  "continuation b = (128 \<le> b \<and> b < 192)"

definition second_of_three :: "nat \<Rightarrow> nat \<Rightarrow> bool" where
  "second_of_three lead b =
     (continuation b \<and> \<not> (lead = 224 \<and> b < 160) \<and> \<not> (lead = 237 \<and> 160 \<le> b))"

definition second_of_four :: "nat \<Rightarrow> nat \<Rightarrow> bool" where
  "second_of_four lead b =
     (continuation b \<and> \<not> (lead = 240 \<and> b < 144) \<and> \<not> (lead = 244 \<and> 144 \<le> b))"

definition utf8_step :: "nat \<Rightarrow> nat list \<Rightarrow> codepoint \<times> nat" where
  "utf8_step b bs =
     (if b < 128 then (b, 0)
      else if b < 194 then (65533, 0)
      else if b < 224 then
        (case bs of
           [] \<Rightarrow> (65533, 0)
         | c1 # r1 \<Rightarrow>
             if continuation c1 then ((b - 192) * 64 + (c1 - 128), 1) else (65533, 0))
      else if b < 240 then
        (case bs of
           [] \<Rightarrow> (65533, 0)
         | c1 # r1 \<Rightarrow>
             if \<not> second_of_three b c1 then (65533, 0)
             else
               (case r1 of
                  [] \<Rightarrow> (65533, 1)
                | c2 # r2 \<Rightarrow>
                    if continuation c2
                    then ((b - 224) * 4096 + (c1 - 128) * 64 + (c2 - 128), 2)
                    else (65533, 1)))
      else if b < 245 then
        (case bs of
           [] \<Rightarrow> (65533, 0)
         | c1 # r1 \<Rightarrow>
             if \<not> second_of_four b c1 then (65533, 0)
             else
               (case r1 of
                  [] \<Rightarrow> (65533, 1)
                | c2 # r2 \<Rightarrow>
                    if \<not> continuation c2 then (65533, 1)
                    else
                      (case r2 of
                         [] \<Rightarrow> (65533, 2)
                       | c3 # r3 \<Rightarrow>
                           if continuation c3
                           then ((b - 240) * 262144 + (c1 - 128) * 4096 + (c2 - 128) * 64
                                 + (c3 - 128), 3)
                           else (65533, 2))))
      else (65533, 0))"

fun utf8_decode_replace :: "nat list \<Rightarrow> str" where
  "utf8_decode_replace [] = []"
| "utf8_decode_replace (b # bs) =
     (case utf8_step b bs of
        (cp, n) \<Rightarrow> cp # utf8_decode_replace (drop n bs))"

text \<open>
  \<^verbatim>\<open>
  _asciire = re.compile('([\x00-\x7f]+)')

  def unquote(string, encoding='utf-8', errors='replace'):
      if '%' not in string:
          return string
      bits = _asciire.split(string)
      res = [bits[0]]
      for i in range(1, len(bits), 2):
          res.append(unquote_to_bytes(bits[i]).decode(encoding, errors))
          res.append(bits[i + 1])
      return ''.join(res)
  \<close>
  \<open>unquote_from run s\<close> reads \<open>s\<close> with the ASCII run collected so far; a run is decoded
  where it ends, and the characters outside ASCII are copied.
\<close>

definition unquote_run :: "str \<Rightarrow> str" where
  "unquote_run run = utf8_decode_replace (unquote_to_bytes run)"

fun unquote_from :: "str \<Rightarrow> str \<Rightarrow> str" where
  "unquote_from run [] = unquote_run run"
| "unquote_from run (c # cs) =
     (if c < 128 then unquote_from (run @ [c]) cs
      else unquote_run run @ c # unquote_from [] cs)"

definition unquote :: "str \<Rightarrow> str" where
  "unquote string = (if 37 \<notin> set string then string else unquote_from [] string)"

text \<open>
  The first lines of \<open>do_GET\<close>:
  \<^verbatim>\<open>
  path = unquote(self.path)
  if '?' in path:
      path = path.split('?')[0]
  if '#' in path:
      path = path.split('#')[0]
  if path == '/':
      path = '/index.html'
  \<close>
\<close>

definition normalize_path :: "str \<Rightarrow> exn + str" where
  "normalize_path raw =
     (let path = unquote raw in
      case (if 63 \<in> set path then index0 (split_on 63 path) else Inr path) of
        Inl e \<Rightarrow> Inl e
      | Inr path \<Rightarrow>
          (case (if 35 \<in> set path then index0 (split_on 35 path) else Inr path) of
             Inl e \<Rightarrow> Inl e
           | Inr path \<Rightarrow> Inr (if path = lit ''/'' then lit ''/index.html'' else path)))"

section \<open>Text encodings\<close>

text \<open>
  \<open>str(e)\<close> of the \<open>UnicodeEncodeError\<close> that \<open>s.encode(codec)\<close> raises for the characters
  of \<open>s\<close> from position \<open>start\<close> up to, not including, position \<open>stop\<close>: one character
  is printed as an escape, \<open>\xhh\<close>, \<open>\uhhhh\<close> or \<open>\Uhhhhhhhh\<close>; several are given by
  their positions.
\<close>

definition hex_digit :: "nat \<Rightarrow> codepoint" where
  "hex_digit d = (if d < 10 then 48 + d else 87 + d)"

fun hex_padded :: "nat \<Rightarrow> nat \<Rightarrow> str" where
  "hex_padded 0 n = []"
| "hex_padded (Suc width) n = hex_padded width (n div 16) @ [hex_digit (n mod 16)]"

definition char_escape :: "codepoint \<Rightarrow> str" where
  "char_escape c =
     (if c < 256 then [92, 120] @ hex_padded 2 c
      else if c < 65536 then [92, 117] @ hex_padded 4 c
      else [92, 85] @ hex_padded 8 c)"

definition unicode_encode_error :: "str \<Rightarrow> str \<Rightarrow> str \<Rightarrow> nat \<Rightarrow> nat \<Rightarrow> exn" where
  "unicode_encode_error codec reason s start stop =
     Exn ''UnicodeEncodeError''
       (39 # codec @ 39 # lit '' codec can't encode character'' @
        (if stop = start + 1
         then lit '' '' @ 39 # concat (map char_escape (take 1 (drop start s))) @
              39 # lit '' in position '' @ decimal start
         else lit ''s in position '' @ decimal start @ lit ''-'' @ decimal (stop - 1)) @
        lit '': '' @ reason)"

text \<open>
  The first run of characters with a property, from position \<open>i\<close> of the whole text: where
  it starts and where it stops. An encoder reports the whole run of the characters that
  it cannot encode.
\<close>

fun first_run :: "(codepoint \<Rightarrow> bool) \<Rightarrow> nat \<Rightarrow> str \<Rightarrow> (nat \<times> nat) option" where
  "first_run bad i [] = None"
| "first_run bad i (c # cs) =
     (if bad c then Some (i, Suc i + length (takeWhile bad cs))
      else first_run bad (Suc i) cs)"

text \<open>
  \<open>s.encode('latin-1', 'strict')\<close> and \<open>s.encode('utf-8')\<close>: the exception raised, if any.
  Latin-1 has the code points below 256; UTF-8 has every code point but the surrogates.
\<close>

definition surrogate :: "codepoint \<Rightarrow> bool" where
  "surrogate c = (55296 \<le> c \<and> c \<le> 57343)"

definition latin1_error :: "str \<Rightarrow> exn option" where
  "latin1_error s =
     (case first_run (\<lambda>c. 256 \<le> c) 0 s of
        None \<Rightarrow> None
      | Some (start, stop) \<Rightarrow>
          Some (unicode_encode_error (lit ''latin-1'') (lit ''ordinal not in range(256)'')
                  s start stop))"

definition utf8_error :: "str \<Rightarrow> exn option" where
  "utf8_error s =
     (case first_run surrogate 0 s of
        None \<Rightarrow> None
      | Some (start, stop) \<Rightarrow>
          Some (unicode_encode_error (lit ''utf-8'') (lit ''surrogates not allowed'')
                  s start stop))"

text \<open>
  A file name goes to the operating system through \<open>os.fsencode\<close>: UTF-8 with the error
  handler \<open>surrogateescape\<close> (the file system encoding of a POSIX system), which turns the
  surrogates U+DC80 to U+DCFF back into the bytes they stand for. In a run of surrogates
  the first one that is not of these is reported with the rest of the run. A name that
  encodes and holds the character U+0000 is refused with a \<open>ValueError\<close>.
\<close>

definition escaped_byte :: "codepoint \<Rightarrow> bool" where
  "escaped_byte c = (56448 \<le> c \<and> c \<le> 56575)"

function fsencode_run :: "nat \<Rightarrow> str \<Rightarrow> (nat \<times> nat) option" where
  "fsencode_run i [] = None"
| "fsencode_run i (c # cs) =
     (if surrogate c then
        (let run = c # takeWhile surrogate cs;
             k = length (takeWhile escaped_byte run)
         in if k < length run then Some (i + k, i + length run)
            else fsencode_run (i + length run) (dropWhile surrogate cs))
      else fsencode_run (Suc i) cs)"
  by pat_completeness auto
termination
  by (relation "measure (\<lambda>(i, s). length s)")
     (auto simp: less_Suc_eq_le length_dropWhile_le)

definition fs_error :: "str \<Rightarrow> exn option" where
  "fs_error s =
     (case fsencode_run 0 s of
        Some (start, stop) \<Rightarrow>
          Some (unicode_encode_error (lit ''utf-8'') (lit ''surrogates not allowed'')
                  s start stop)
      | None \<Rightarrow>
          if 0 \<in> set s then Some (Exn ''ValueError'' (lit ''embedded null byte'')) else None)"

text \<open>
  \<open>bytes.decode('utf-8', 'surrogatepass')\<close>: an ill-formed sequence is accepted when it
  is the three bytes of an encoded surrogate and raises \<open>UnicodeDecodeError\<close> (here
  \<open>None\<close>) otherwise. A step of \<open>utf8_step\<close> is an error when it yields U+FFFD from
  bytes other than the encoding of U+FFFD.
\<close>

definition utf8_ill_formed :: "nat \<Rightarrow> nat list \<Rightarrow> bool" where
  "utf8_ill_formed b bs =
     (fst (utf8_step b bs) = 65533 \<and> \<not> (b = 239 \<and> take 2 bs = [191, 189]))"

function utf8_decode_surrogatepass :: "nat list \<Rightarrow> str option" where
  "utf8_decode_surrogatepass [] = Some []"
| "utf8_decode_surrogatepass (b # bs) =
     (if utf8_ill_formed b bs then
        (case bs of
           c1 # c2 # rest \<Rightarrow>
             if b = 237 \<and> 160 \<le> c1 \<and> c1 \<le> 191 \<and> continuation c2
             then map_option ((#) (53248 + (c1 - 128) * 64 + (c2 - 128)))
                    (utf8_decode_surrogatepass rest)
             else None
         | _ \<Rightarrow> None)
      else map_option ((#) (fst (utf8_step b bs)))
             (utf8_decode_surrogatepass (drop (snd (utf8_step b bs)) bs)))"
  by pat_completeness auto
termination
  by (relation "measure length") auto

text \<open>
  \<open>urllib.parse.unquote(string, errors='surrogatepass')\<close>: as \<open>unquote\<close>, with the other
  error handler; the exception of one run is the exception of the call.
\<close>

fun unquote_from_surrogatepass :: "str \<Rightarrow> str \<Rightarrow> str option" where
  "unquote_from_surrogatepass run [] = utf8_decode_surrogatepass (unquote_to_bytes run)"
| "unquote_from_surrogatepass run (c # cs) =
     (if c < 128 then unquote_from_surrogatepass (run @ [c]) cs
      else
        (case utf8_decode_surrogatepass (unquote_to_bytes run) of
           None \<Rightarrow> None
         | Some d \<Rightarrow> map_option (\<lambda>t. d @ c # t) (unquote_from_surrogatepass [] cs)))"

definition unquote_surrogatepass :: "str \<Rightarrow> str option" where
  "unquote_surrogatepass string =
     (if 37 \<notin> set string then Some string else unquote_from_surrogatepass [] string)"

section \<open>The file system\<close>

text \<open>
  The handler touches the disk through \<open>Path.exists\<close>, \<open>open\<close> and the static handler
  of the standard library. The disk is a map from absolute paths, written as the list of
  their components from the root directory \<open>[]\<close>, to what is stored there. A file is given
  by the text that reading it as UTF-8 returns; \<open>Unreadable e\<close> is a file that exists and
  whose \<open>open\<close> or \<open>read\<close> raises \<open>e\<close> (no permission, bytes that are not UTF-8).
  Symbolic links are not modelled, and the disk does not change during a request.
\<close>

datatype node = File str | Directory | Unreadable exn

text \<open>
  \<open>self.docs_root / path\<close> of \<open>pathlib\<close>: a \<open>path\<close> that starts with \<open>/\<close> replaces the
  root, any other is appended to it. Empty components and \<open>.\<close> are dropped when the path
  is parsed; \<open>..\<close> is kept as it is written.
\<close>

definition path_parts :: "str \<Rightarrow> str list" where
  "path_parts p = filter (\<lambda>s. s \<noteq> [] \<and> s \<noteq> lit ''.'') (split_on 47 p)"

definition path_join :: "str list \<Rightarrow> str \<Rightarrow> str list" where
  "path_join root p =
     (if startswith p (lit ''/'') then path_parts p else root @ path_parts p)"

text \<open>The path as one text, as it is handed to the operating system.\<close>

definition path_text :: "str list \<Rightarrow> str" where
  "path_text p = (if p = [] then lit ''/'' else concat (map (\<lambda>s. 47 # s) p))"

text \<open>
  How the operating system looks a path up: component by component from the root, each
  component in the directory reached so far, \<open>..\<close> leading to the parent (the parent of
  the root is the root). The result is the place reached and what is stored there, or
  the reason for which nothing is found: an entry is missing (\<open>ENOENT\<close>), or a component
  is looked up in something that is not a directory (\<open>ENOTDIR\<close>).
\<close>

datatype lookup = Found "str list" node | No_entry | Not_a_directory

fun walk :: "(str list \<Rightarrow> node option) \<Rightarrow> str list \<Rightarrow> str list \<Rightarrow> lookup" where
  "walk files cur [] = (case files cur of None \<Rightarrow> No_entry | Some n \<Rightarrow> Found cur n)"
| "walk files cur (s # rest) =
     (case files cur of
        None \<Rightarrow> No_entry
      | Some Directory \<Rightarrow>
          if s = lit ''..'' then walk files (butlast cur) rest
          else walk files (cur @ [s]) rest
      | Some _ \<Rightarrow> Not_a_directory)"

declare walk.simps [simp del]

text \<open>
  What a system call on a path comes to. The name may not encode (\<open>fs_error\<close>), and then
  no call is made. The operating system may refuse the path with an \<open>OSError\<close> other
  than a missing entry: a name that is too long, a directory that may not be searched,
  a failing device. Which paths it refuses so is the parameter \<open>stat_failure\<close>, with the
  exception raised. Every other path is looked up.
\<close>

datatype resolution = Unencodable exn | Refused exn | Looked_up lookup

definition resolve ::
  "(str list \<Rightarrow> node option) \<Rightarrow> (str list \<Rightarrow> exn option) \<Rightarrow> str list \<Rightarrow> resolution" where
  "resolve files stat_failure p =
     (case fs_error (path_text p) of
        Some ex \<Rightarrow> Unencodable ex
      | None \<Rightarrow>
          (case stat_failure p of
             Some ex \<Rightarrow> Refused ex
           | None \<Rightarrow> Looked_up (walk files [] p)))"

text \<open>
  \<open>file_path.exists()\<close>:
  \<^verbatim>\<open>
  try:
      self.stat()
  except OSError as e:
      if not _ignore_error(e):
          raise
      return False
  except ValueError:
      # Non-encodable path
      return False
  return True
  \<close>
  The errors that \<open>_ignore_error\<close> accepts are those of a path that is not found.
\<close>

definition path_exists ::
  "(str list \<Rightarrow> node option) \<Rightarrow> (str list \<Rightarrow> exn option) \<Rightarrow> str list \<Rightarrow> exn + bool" where
  "path_exists files stat_failure p =
     (case resolve files stat_failure p of
        Unencodable ex \<Rightarrow> Inr False
      | Refused ex \<Rightarrow> Inl ex
      | Looked_up (Found place n) \<Rightarrow> Inr True
      | Looked_up _ \<Rightarrow> Inr False)"

text \<open>
  \<open>with open(file_path, 'r', encoding='utf-8') as f: content = f.read()\<close>. The text of an
  \<open>OSError\<close> ends with the \<open>repr\<close> of the file name; \<open>path_repr\<close> stands for it.
\<close>

definition read_text ::
  "(str list \<Rightarrow> node option) \<Rightarrow> (str list \<Rightarrow> exn option) \<Rightarrow> (str list \<Rightarrow> str) \<Rightarrow>
   str list \<Rightarrow> exn + str" where
  "read_text files stat_failure path_repr p =
     (case resolve files stat_failure p of
        Unencodable ex \<Rightarrow> Inl ex
      | Refused ex \<Rightarrow> Inl ex
      | Looked_up No_entry \<Rightarrow>
          Inl (Exn ''FileNotFoundError''
                 (lit ''[Errno 2] No such file or directory: '' @ path_repr p))
      | Looked_up Not_a_directory \<Rightarrow>
          Inl (Exn ''NotADirectoryError'' (lit ''[Errno 20] Not a directory: '' @ path_repr p))
      | Looked_up (Found place (File text)) \<Rightarrow> Inr text
      | Looked_up (Found place Directory) \<Rightarrow>
          Inl (Exn ''IsADirectoryError'' (lit ''[Errno 21] Is a directory: '' @ path_repr p))
      | Looked_up (Found place (Unreadable ex)) \<Rightarrow> Inl ex)"

section \<open>Responses\<close>

text \<open>
  A response as the handler issues it through \<open>send_response\<close>, \<open>send_header\<close>,
  \<open>end_headers\<close> and \<open>wfile.write\<close>: the status code and the reason phrase, the headers
  that the handler itself adds (the \<open>Server\<close>, \<open>Date\<close> and \<open>Content-Length\<close> headers of
  the library are left out) and the body as text. For a request of version HTTP/0.9 the
  library writes the body only. Writing to the socket and to the log is taken to
  succeed.
\<close>

record response =
  status :: nat
  reason :: str
  headers :: "(str \<times> str) list"
  body_text :: str

text \<open>\<open>html.escape(s, quote=False)\<close>: \<open>&\<close> first, then \<open><\<close>, then \<open>>\<close>.\<close>

definition html_escape :: "str \<Rightarrow> str" where
  "html_escape s =
     replace_chr 62 (lit ''&gt;'') (replace_chr 60 (lit ''&lt;'') (replace_chr 38 (lit ''&amp;'') s))"

text \<open>
  The page of \<open>BaseHTTPRequestHandler.send_error(code, message)\<close> of Python 3.11 for a
  \<open>GET\<close> request: the status line carries \<open>message\<close>, the body is
  \<open>DEFAULT_ERROR_MESSAGE\<close> filled with the code, the escaped message and the escaped long
  explanation of the code. The handler sends the codes 404 and 500 only, and
  \<open>long_message\<close> holds the explanations of these two.
\<close>

definition long_message :: "nat \<Rightarrow> str" where
  "long_message code =
     (if code = 404 then lit ''Nothing matches the given URI''
      else if code = 500 then lit ''Server got itself in trouble''
      else lit ''???'')"

definition error_page_head :: "nat \<Rightarrow> str" where
  \<open>error_page_head code =
     lit ''<!DOCTYPE HTML>\<newline><html lang="en">\<newline>    <head>\<newline>        <meta charset="utf-8">\<newline>        <title>Error response</title>\<newline>    </head>\<newline>    <body>\<newline>        <h1>Error response</h1>\<newline>        <p>Error code: '' @
     decimal code @ lit ''</p>\<newline>        <p>Message: ''\<close>

definition error_page_tail :: "nat \<Rightarrow> str" where
  \<open>error_page_tail code =
     lit ''.</p>\<newline>        <p>Error code explanation: '' @ decimal code @ lit '' - '' @
     html_escape (long_message code) @ lit ''.</p>\<newline>    </body>\<newline></html>\<newline>''\<close>

definition error_response :: "nat \<Rightarrow> str \<Rightarrow> response" where
  "error_response code message =
     \<lparr>status = code, reason = message,
      headers = [(lit ''Connection'', lit ''close''),
                 (lit ''Content-Type'', lit ''text/html;charset=utf-8'')],
      body_text = error_page_head code @ html_escape message @ error_page_tail code\<rparr>"

text \<open>
  \<open>send_error\<close> starts with \<open>send_response(code, message)\<close>, and \<open>send_response_only\<close>
  encodes the status line before anything is written:
  \<^verbatim>\<open>
  if self.request_version != 'HTTP/0.9':
      ...
      self._headers_buffer.append(("%s %d %s\r\n" %
              (self.protocol_version, code, message)).encode(
                  'latin-1', 'strict'))
  \<close>
  with \<open>protocol_version = "HTTP/1.0"\<close>. A message with a character outside Latin-1
  makes \<open>send_error\<close> raise, and nothing is sent. The headers are ASCII, and the body is
  encoded with the error handler \<open>replace\<close>.
\<close>

definition status_line :: "nat \<Rightarrow> str \<Rightarrow> str" where
  "status_line code message =
     lit ''HTTP/1.0 '' @ decimal code @ lit '' '' @ message @ [13, 10]"

definition send_error :: "str \<Rightarrow> nat \<Rightarrow> str \<Rightarrow> exn + response" where
  "send_error request_version code message =
     (if request_version \<noteq> lit ''HTTP/0.9'' then
        (case latin1_error (status_line code message) of
           Some ex \<Rightarrow> Inl ex
         | None \<Rightarrow> Inr (error_response code message))
      else Inr (error_response code message))"

text \<open>
  The success path of \<open>serve_markdown\<close>: \<open>send_response(200)\<close>, the \<open>Content-type\<close> header,
  \<open>end_headers()\<close> and the page written as the body.
\<close>

definition page_headers :: "(str \<times> str) list" where
  "page_headers = [(lit ''Content-type'', lit ''text/html; charset=utf-8'')]"

definition send_page :: "str \<Rightarrow> response" where
  "send_page full_html =
     \<lparr>status = 200, reason = lit ''OK'', headers = page_headers, body_text = full_html\<rparr>"

text \<open>
  \<open>HTML_TEMPLATE.format(title=..., content=...)\<close>: the template is a sequence of literal
  text (with \<open>{{\<close> and \<open>}}\<close> already read as braces) and of the two fields \<open>{title}\<close> and
  \<open>{content}\<close>.
\<close>

datatype template_piece = Text str | Title_field | Content_field

definition format_template :: "template_piece list \<Rightarrow> str \<Rightarrow> str \<Rightarrow> str" where
  "format_template template title_text content =
     concat (map (\<lambda>p. case p of Text s \<Rightarrow> s | Title_field \<Rightarrow> title_text
                                 | Content_field \<Rightarrow> content) template)"

section \<open>The request handler\<close>

text \<open>
  One request leaves a trace of what the handler did, in order: the markdown file it
  opened, the text it gave to the markdown converter, the call of the static handler
  \<open>super().do_GET()\<close>, a response sent, the status line and the headers of a response
  sent without its body, and an exception that leaves \<open>do_GET\<close>.
\<close>

datatype event =
    Open_file "str list"
  | Convert_markdown str
  | Static_GET str
  | Send response
  | Send_headers nat str "(str \<times> str) list"
  | Raise exn

text \<open>A call of \<open>send_error\<close> or of the static handler in the trace.\<close>

definition reply :: "exn + response \<Rightarrow> event" where
  "reply r = (case r of Inl ex \<Rightarrow> Raise ex | Inr response \<Rightarrow> Send response)"

text \<open>
  What a request depends on beside its path: the module constants \<open>MARKDOWN_AVAILABLE\<close>
  and \<open>HTML_TEMPLATE\<close>, the attribute \<open>docs_root\<close> of the handler and the \<open>directory\<close> of
  the static handler (the working directory), the version of the request, the disk and
  the paths that the operating system refuses, the \<open>repr\<close> of a file name, the markdown
  package (\<open>markdown_convert\<close> is \<open>markdown.Markdown(extensions=[...])\<close> followed by
  \<open>md.convert\<close>, and returns the exception when either raises), the table
  \<open>html.entities.html5\<close>, \<open>str.title()\<close> outside ASCII, and what the static handler does
  with a path that it finds (\<open>static_found\<close>, given the request path, the place reached
  and what is stored there: a file's bytes, a directory listing, a redirect). The
  exceptions are those of class \<open>Exception\<close>.
\<close>

record env =
  MARKDOWN_AVAILABLE :: bool
  docs_root :: "str list"
  directory :: "str list"
  request_version :: str
  files :: "str list \<Rightarrow> node option"
  stat_failure :: "str list \<Rightarrow> exn option"
  path_repr :: "str list \<Rightarrow> str"
  markdown_convert :: "str \<Rightarrow> exn + str"
  html5_table :: "str \<Rightarrow> str option"
  unicode_title :: "str \<Rightarrow> str"
  HTML_TEMPLATE :: "template_piece list"
  static_found :: "str \<Rightarrow> str list \<Rightarrow> node \<Rightarrow> exn + response"

text \<open>
  \<open>posixpath.normpath\<close>: the loop over the components of the path, and the function.
\<close>

definition normpath_step :: "nat \<Rightarrow> str list \<Rightarrow> str \<Rightarrow> str list" where
  "normpath_step initial_slashes new_comps component =
     (if component = [] \<or> component = lit ''.'' then new_comps
      else if component \<noteq> lit ''..'' \<or> (initial_slashes = 0 \<and> new_comps = [])
              \<or> (new_comps \<noteq> [] \<and> last new_comps = lit ''..'')
      then new_comps @ [component]
      else if new_comps \<noteq> [] then butlast new_comps
      else new_comps)"

definition normpath :: "str \<Rightarrow> str" where
  "normpath path =
     (if path = [] then lit ''.''
      else
        (let initial_slashes =
               (if startswith path (lit ''/'') then
                  (if startswith path (lit ''//'') \<and> \<not> startswith path (lit ''///'')
                   then 2 else 1)
                else 0);
             comps = split_on 47 path;
             new_comps = foldl (normpath_step initial_slashes) [] comps;
             result = replicate initial_slashes 47 @ join (lit ''/'') new_comps
         in if result = [] then lit ''.'' else result))"

text \<open>
  \<open>SimpleHTTPRequestHandler.translate_path\<close>:
  \<^verbatim>\<open>
  path = path.split('?',1)[0]
  path = path.split('#',1)[0]
  trailing_slash = path.rstrip().endswith('/')
  try:
      path = urllib.parse.unquote(path, errors='surrogatepass')
  except UnicodeDecodeError:
      path = urllib.parse.unquote(path)
  path = posixpath.normpath(path)
  words = path.split('/')
  words = filter(None, words)
  path = self.directory
  for word in words:
      if os.path.dirname(word) or word in (os.curdir, os.pardir):
          continue
      path = os.path.join(path, word)
  if trailing_slash:
      path += '/'
  return path
  \<close>
  The result is the list of the components, with the trailing slash apart.
\<close>

definition translate_path :: "str list \<Rightarrow> str \<Rightarrow> str list \<times> bool" where
  "translate_path dir raw =
     (let path = takeWhile (\<lambda>c. c \<noteq> 63) raw;
          path = takeWhile (\<lambda>c. c \<noteq> 35) path;
          trailing_slash = endswith (rstrip_chars whitespace path) (lit ''/'');
          path = (case unquote_surrogatepass path of Some s \<Rightarrow> s | None \<Rightarrow> unquote path);
          path = normpath path;
          words = filter (\<lambda>w. w \<noteq> []) (split_on 47 path)
      in (dir @ filter (\<lambda>w. w \<noteq> lit ''.'' \<and> w \<noteq> lit ''..'') words, trailing_slash))"

text \<open>
  \<open>super().do_GET()\<close>, that is \<open>send_head\<close> and the copy of the file:
  \<^verbatim>\<open>
  path = self.translate_path(self.path)
  if os.path.isdir(path):
      ...
  if path.endswith("/"):
      self.send_error(HTTPStatus.NOT_FOUND, "File not found")
      return None
  try:
      f = open(path, 'rb')
  except OSError:
      self.send_error(HTTPStatus.NOT_FOUND, "File not found")
      return None
  \<close>
  \<open>os.path.isdir\<close> is false for a path that does not encode or is refused. \<open>open\<close>
  raises an \<open>OSError\<close> for a path that is refused or not found, and a \<open>ValueError\<close>,
  which \<open>send_head\<close> does not catch, for a path that does not encode. The static handler
  is taken to send one response or to raise.
\<close>

definition superclass_do_GET :: "env \<Rightarrow> str \<Rightarrow> exn + response" where
  "superclass_do_GET e raw =
     (case translate_path (directory e) raw of
        (p, trailing_slash) \<Rightarrow>
          (case resolve (files e) (stat_failure e) p of
             Looked_up (Found place Directory) \<Rightarrow> static_found e raw place Directory
           | r \<Rightarrow>
               if trailing_slash
               then send_error (request_version e) 404 (lit ''File not found'')
               else
                 (case r of
                    Unencodable ex \<Rightarrow> Inl ex
                  | Refused ex \<Rightarrow> send_error (request_version e) 404 (lit ''File not found'')
                  | Looked_up (Found place n) \<Rightarrow> static_found e raw place n
                  | Looked_up _ \<Rightarrow>
                      send_error (request_version e) 404 (lit ''File not found''))))"

text \<open>
  The handler of the \<open>try\<close> block in \<open>serve_markdown\<close>:
  \<^verbatim>\<open>
  except Exception as e:
      self.send_error(500, f"Error rendering markdown: {e}")
      return True
  \<close>
  The result is what \<open>serve_markdown\<close> returns or raises, and the end of the trace.
\<close>

definition render_failed :: "env \<Rightarrow> exn \<Rightarrow> (exn + bool) \<times> event list" where
  "render_failed e ex =
     (case send_error (request_version e) 500
             (lit ''Error rendering markdown: '' @ exn_text ex) of
        Inl ex' \<Rightarrow> (Inl ex', [Raise ex'])
      | Inr response \<Rightarrow> (Inr True, [Send response]))"

definition after :: "event list \<Rightarrow> (exn + bool) \<times> event list \<Rightarrow> (exn + bool) \<times> event list" where
  "after events r = (fst r, events @ snd r)"

text \<open>
  The body of the \<open>try\<close> block. The steps in order: read the file, convert it,
  \<open>process_mermaid_blocks\<close>, the title, \<open>generate_breadcrumb(path)\<close>,
  \<open>HTML_TEMPLATE.format\<close>, \<open>send_response(200)\<close> with the header and \<open>end_headers()\<close>,
  \<open>self.wfile.write(full_html.encode('utf-8'))\<close>. The page is encoded after its headers
  are sent.
\<close>

definition render :: "env \<Rightarrow> str \<Rightarrow> str list \<Rightarrow> (exn + bool) \<times> event list" where
  \<open>render e path file_path =
     (case read_text (files e) (stat_failure e) (path_repr e) file_path of
        Inl ex \<Rightarrow> after [Open_file file_path] (render_failed e ex)
      | Inr content \<Rightarrow>
          (case markdown_convert e content of
             Inl ex \<Rightarrow> after [Open_file file_path, Convert_markdown content] (render_failed e ex)
           | Inr html_content \<Rightarrow>
               (case process_mermaid_blocks (html5_table e) html_content of
                  Inl ex \<Rightarrow>
                    after [Open_file file_path, Convert_markdown content] (render_failed e ex)
                | Inr html_content \<Rightarrow>
                    (case derive_title content of
                       Inl ex \<Rightarrow>
                         after [Open_file file_path, Convert_markdown content]
                           (render_failed e ex)
                     | Inr page_title \<Rightarrow>
                         (let breadcrumb = generate_breadcrumb (unicode_title e) path;
                              full_html =
                                format_template (HTML_TEMPLATE e) page_title
                                  (breadcrumb @ lit ''<div class="content">'' @ html_content @
                                   lit ''</div>'')
                          in case utf8_error full_html of
                               Some ex \<Rightarrow>
                                 after [Open_file file_path, Convert_markdown content,
                                        Send_headers 200 (lit ''OK'') page_headers]
                                   (render_failed e ex)
                             | None \<Rightarrow>
                                 (Inr True,
                                  [Open_file file_path, Convert_markdown content,
                                   Send (send_page full_html)]))))))\<close>

text \<open>
  \<open>serve_markdown(path)\<close>: what it returns or raises, and the trace.
  \<^verbatim>\<open>
  if not MARKDOWN_AVAILABLE:
      self.send_error(500, "Markdown rendering not available")
      return True
  if path.startswith('/'):
      path = path[1:]
  file_path = self.docs_root / path
  if not file_path.exists():
      return False
  try: ... return True
  except Exception as e: ... return True
  \<close>
\<close>

definition serve_markdown :: "env \<Rightarrow> str \<Rightarrow> (exn + bool) \<times> event list" where
  "serve_markdown e path =
     (if \<not> MARKDOWN_AVAILABLE e then
        (case send_error (request_version e) 500 (lit ''Markdown rendering not available'') of
           Inl ex \<Rightarrow> (Inl ex, [Raise ex])
         | Inr response \<Rightarrow> (Inr True, [Send response]))
      else
        (let path = (if startswith path (lit ''/'') then drop 1 path else path);
             file_path = path_join (docs_root e) path
         in case path_exists (files e) (stat_failure e) file_path of
              Inl ex \<Rightarrow> (Inl ex, [Raise ex])
            | Inr found \<Rightarrow> if \<not> found then (Inr False, []) else render e path file_path))"

text \<open>
  \<open>do_GET\<close>: after the normalisation of the path,
  \<^verbatim>\<open>
  if path.endswith('.html'):
      md_path = path[:-5] + '.md'
      if self.serve_markdown(md_path):
          return
  super().do_GET()
  \<close>
  The static handler reads \<open>self.path\<close>, the path as it was requested.
\<close>

definition do_GET :: "env \<Rightarrow> str \<Rightarrow> event list" where
  "do_GET e raw =
     (case normalize_path raw of
        Inl ex \<Rightarrow> [Raise ex]
      | Inr path \<Rightarrow>
          if endswith path (lit ''.html'') then
            (let md_path = take (length path - 5) path @ lit ''.md'' in
             case serve_markdown e md_path of
               (Inl ex, events) \<Rightarrow> events
             | (Inr served, events) \<Rightarrow>
                 if served then events
                 else events @ [Static_GET raw, reply (superclass_do_GET e raw)])
          else [Static_GET raw, reply (superclass_do_GET e raw)])"

text \<open>
  The candidate markdown path of a normalised path that ends in \<open>.html\<close>, as
  \<open>serve_markdown\<close> joins it to the root: \<open>path[:-5] + '.md'\<close> without one leading \<open>/\<close>.
\<close>

definition candidate_md :: "str \<Rightarrow> str" where
  "candidate_md path =
     (let md_path = take (length path - 5) path @ lit ''.md''
      in if startswith md_path (lit ''/'') then drop 1 md_path else md_path)"

text \<open>The title of a page, as a function of the text of the file.\<close>

definition title_of :: "str \<Rightarrow> str" where
  "title_of content =
     (if startswith (first_line content) (lit ''#'')
      then strip (dropWhile (\<lambda>c. c = 35) (first_line content))
      else lit ''Documentation'')"

text \<open>
  The static file of a request is missing when the operating system does not find the
  path that the static handler translates the request to.
\<close>

definition static_missing :: "env \<Rightarrow> str \<Rightarrow> bool" where
  "static_missing e raw =
     (case resolve (files e) (stat_failure e) (fst (translate_path (directory e) raw)) of
        Looked_up No_entry \<Rightarrow> True
      | Looked_up Not_a_directory \<Rightarrow> True
      | _ \<Rightarrow> False)"

text \<open>The parts of a trace.\<close>

fun sends :: "event list \<Rightarrow> response list" where
  "sends [] = []"
| "sends (Send r # evs) = r # sends evs"
| "sends (_ # evs) = sends evs"

fun static_calls :: "event list \<Rightarrow> str list" where
  "static_calls [] = []"
| "static_calls (Static_GET raw # evs) = raw # static_calls evs"
| "static_calls (_ # evs) = static_calls evs"

fun files_opened :: "event list \<Rightarrow> str list list" where
  "files_opened [] = []"
| "files_opened (Open_file p # evs) = p # files_opened evs"
| "files_opened (_ # evs) = files_opened evs"

fun conversions :: "event list \<Rightarrow> str list" where
  "conversions [] = []"
| "conversions (Convert_markdown c # evs) = c # conversions evs"
| "conversions (_ # evs) = conversions evs"

fun raised :: "event list \<Rightarrow> exn list" where
  "raised [] = []"
| "raised (Raise ex # evs) = ex # raised evs"
| "raised (_ # evs) = raised evs"

text \<open>
  A small disk for concrete runs: the documentation root \<open>/srv/docs\<close> with a page, a page
  that the converter rejects beside a static file of the same name, a file that is not
  UTF-8, a style sheet, a directory whose name is the two characters U+65E5 U+672C
  (\<open>nihon\<close>) with the suffix \<open>.md\<close>, a directory \<open>locked\<close> that may not be searched, and a file
  \<open>/srv/secret.md\<close> above the root. The converter of the runs wraps the text in a
  paragraph and raises on the text \<open>boom\<close>; the static handler of the runs sends a file
  as it is (no run asks it for a directory). The requests are of version HTTP/1.1.
  \<open>quoted s\<close> is \<open>repr(s)\<close> for a text of printing characters without quotes and
  backslashes. No run takes the title of a text outside ASCII, and \<open>unicode_title\<close> is
  set to the ASCII rule.
\<close>

definition nihon :: str where
  "nihon = [26085, 26412]"

definition sample_files :: "str list \<Rightarrow> node option" where
  "sample_files =
     map_of
       [([], Directory),
        ([lit ''srv''], Directory),
        ([lit ''srv'', lit ''docs''], Directory),
        ([lit ''srv'', lit ''docs'', lit ''index.md''], File (lit ''# Home'')),
        ([lit ''srv'', lit ''docs'', lit ''bad.md''], File (lit ''boom'')),
        ([lit ''srv'', lit ''docs'', lit ''bad.html''], File (lit ''static'')),
        ([lit ''srv'', lit ''docs'', lit ''raw.md''],
           Unreadable (Exn ''UnicodeDecodeError'' (lit ''invalid start byte''))),
        ([lit ''srv'', lit ''docs'', lit ''style.css''], File (lit ''p{}'')),
        ([lit ''srv'', lit ''docs'', nihon @ lit ''.md''], Directory),
        ([lit ''srv'', lit ''docs'', lit ''locked''], Directory),
        ([lit ''srv'', lit ''secret.md''], File (lit ''key''))]"

definition quoted :: "str \<Rightarrow> str" where
  "quoted s = 39 # s @ [39]"

definition sample_repr :: "str list \<Rightarrow> str" where
  "sample_repr p = quoted (path_text p)"

definition sample_stat_failure :: "str list \<Rightarrow> exn option" where
  "sample_stat_failure p =
     (if take 3 p = [lit ''srv'', lit ''docs'', lit ''locked''] \<and> 3 < length p
      then Some (Exn ''PermissionError'' (lit ''[Errno 13] Permission denied: '' @ sample_repr p))
      else None)"

definition sample_convert :: "str \<Rightarrow> exn + str" where
  "sample_convert content =
     (if content = lit ''boom'' then Inl (Exn ''ValueError'' (lit ''a<b''))
      else Inr (lit ''<p>'' @ content @ lit ''</p>''))"

definition sample_static :: "str \<Rightarrow> str list \<Rightarrow> node \<Rightarrow> exn + response" where
  "sample_static raw p n =
     (case n of
        File text \<Rightarrow> Inr \<lparr>status = 200, reason = lit ''OK'', headers = [], body_text = text\<rparr>
      | _ \<Rightarrow> Inr (error_response 404 (lit ''File not found'')))"

definition sample_env :: env where
  "sample_env =
     \<lparr>MARKDOWN_AVAILABLE = True,
      docs_root = [lit ''srv'', lit ''docs''],
      directory = [lit ''srv'', lit ''docs''],
      request_version = lit ''HTTP/1.1'',
      files = sample_files,
      stat_failure = sample_stat_failure,
      path_repr = sample_repr,
      markdown_convert = sample_convert,
      html5_table = sample_html5,
      unicode_title = ascii_title,
      HTML_TEMPLATE = [Text (lit ''<h1>''), Title_field, Text (lit ''</h1>''), Content_field],
      static_found = sample_static\<rparr>"

definition unavailable_env :: env where
  "unavailable_env = sample_env\<lparr>MARKDOWN_AVAILABLE := False\<rparr>"

section \<open>Facts about the string operations\<close>

lemma split_on_not_Nil: "split_on c s \<noteq> []"
  by (induction s) (auto split: list.splits)

lemma hd_split_on: "hd (split_on c s) = takeWhile (\<lambda>x. x \<noteq> c) s"
proof (induction s)
  case Nil
  show ?case by simp
next
  case (Cons x xs)
  show ?case
  proof (cases "x = c")
    case True
    then show ?thesis by simp
  next
    case False
    with Cons split_on_not_Nil [of c xs] show ?thesis
      by (cases "split_on c xs") auto
  qed
qed

lemma index0_split_on: "index0 (split_on c s) = Inr (takeWhile (\<lambda>x. x \<noteq> c) s)"
  using split_on_not_Nil [of c s] hd_split_on [of c s]
  by (cases "split_on c s") (auto simp: index0_def)

lemma startswith_first_line:
  "startswith (first_line content) (lit ''#'') = startswith content (lit ''#'')"
  by (cases content) (auto simp: startswith_def first_line_def lit_def)

lemma strip_slash_id:
  assumes "\<not> startswith s (lit ''/'')" "\<not> endswith s (lit ''/'')"
  shows "strip_chars (lit ''/'') s = s"
proof (cases s rule: rev_cases)
  case Nil
  then show ?thesis by (simp add: strip_chars_def lstrip_chars_def rstrip_chars_def)
next
  case (snoc ys y)
  with assms(2) have y: "y \<noteq> 47" by (simp add: endswith_def lit_def)
  from assms(1) have l: "lstrip_chars (lit ''/'') s = s"
    by (cases s) (auto simp: startswith_def lit_def lstrip_chars_def)
  show ?thesis unfolding strip_chars_def l using y snoc by (simp add: rstrip_chars_def lit_def)
qed

lemma breadcrumb_loop_map:
  "breadcrumb_loop ut segs cur acc =
     acc @ map (\<lambda>k. crumb_entry (cur @ accumulated_prefix (take (Suc k) segs))
                        (crumb_label ut (segs ! k)))
             [0..<length segs]"
proof (induction segs arbitrary: cur acc)
  case Nil
  show ?case by simp
next
  case (Cons part rest)
  show ?case
    by (simp add: Cons.IH map_upt_Suc crumb_entry_def accumulated_prefix_def crumb_label_def
        lit_def del: upt_Suc)
qed

lemma butlast_Nil_iff: "(butlast xs = []) = (\<not> Suc 0 < length xs)"
  by (cases xs) auto

section \<open>Facts about matching and decoding\<close>

lemma re_match_Lit: "re_match (Lit l # p) (l @ s) = re_match p s"
  by (simp add: startswith_def)

lemma re_match_Lit_mismatch: "x \<noteq> c \<Longrightarrow> re_match (Lit (c # l) # p) (x # s) = None"
  by (simp add: startswith_def)

lemma re_match_Lit_Nil: "re_match (Lit (c # l) # p) [] = None"
  by (simp add: startswith_def)

lemma re_match_NotCharStar:
  "c \<notin> set a \<Longrightarrow>
   re_match (NotCharStar c # Lit (c # l) # p) (a @ c # s) = re_match (Lit (c # l) # p) (c # s)"
proof (induction a)
  case Nil
  show ?case by simp
next
  case (Cons x a)
  then have x: "x \<noteq> c" and IH: "re_match (NotCharStar c # Lit (c # l) # p) (a @ c # s) = re_match (Lit (c # l) # p) (c # s)"
    by auto
  have "re_match (NotCharStar c # Lit (c # l) # p) ((x # a) @ c # s) =
        (case re_match (NotCharStar c # Lit (c # l) # p) (a @ c # s) of
           Some r \<Rightarrow> Some r
         | None \<Rightarrow> re_match (Lit (c # l) # p) (x # a @ c # s))"
    using x by simp
  also have "\<dots> = re_match (NotCharStar c # Lit (c # l) # p) (a @ c # s)"
    using re_match_Lit_mismatch [OF x, of l p "a @ c # s"] by (simp split: option.splits)
  finally show ?case using IH by simp
qed

lemma re_match_GroupLazyAny:
  "c \<notin> set e \<Longrightarrow>
   re_match [GroupLazyAny, Lit (c # l)] (e @ (c # l) @ t) = Some (e, t)"
proof (induction e)
  case Nil
  have "re_match [Lit (c # l)] ((c # l) @ t) = Some ([], t)"
    unfolding re_match_Lit by simp
  then show ?case by simp
next
  case (Cons x e)
  then have x: "x \<noteq> c" and IH: "re_match [GroupLazyAny, Lit (c # l)] (e @ (c # l) @ t) = Some (e, t)"
    by auto
  have "re_match [Lit (c # l)] (x # e @ (c # l) @ t) = None"
    using re_match_Lit_mismatch [OF x] by simp
  then show ?case using IH by simp
qed

lemma lit_open: \<open>lit ''><code class="language-mermaid">'' = 62 # lit ''<code class="language-mermaid">''\<close>
  by (simp add: lit_def)

lemma lit_close: \<open>lit ''</code></pre>'' = 60 # lit ''/code></pre>''\<close>
  by (simp add: lit_def)

lemma re_match_span:
  assumes "62 \<notin> set attrs" "60 \<notin> set body"
  shows "re_match MERMAID_PATTERN (mermaid_span attrs body @ t) = Some (body, t)"
proof -
  have "re_match MERMAID_PATTERN (mermaid_span attrs body @ t) =
        re_match [NotCharStar 62, Lit (62 # lit ''<code class=\"language-mermaid\">''),
                  GroupLazyAny, Lit (60 # lit ''/code></pre>'')]
          (attrs @ 62 # (lit ''<code class=\"language-mermaid\">'' @ body @ (60 # lit ''/code></pre>'') @ t))"
    unfolding MERMAID_PATTERN_def mermaid_span_def lit_open lit_close
    using re_match_Lit [of "lit ''<pre''"] by simp
  also have "\<dots> = re_match [Lit (62 # lit ''<code class=\"language-mermaid\">''),
                  GroupLazyAny, Lit (60 # lit ''/code></pre>'')]
          (62 # (lit ''<code class=\"language-mermaid\">'' @ body @ (60 # lit ''/code></pre>'') @ t))"
    by (rule re_match_NotCharStar [OF assms(1)])
  also have "\<dots> = re_match [GroupLazyAny, Lit (60 # lit ''/code></pre>'')]
          (body @ (60 # lit ''/code></pre>'') @ t)"
    using re_match_Lit [of "62 # lit ''<code class=\"language-mermaid\">''"] by simp
  also have "\<dots> = Some (body, t)"
    by (rule re_match_GroupLazyAny [OF assms(2)])
  finally show ?thesis .
qed

lemma re_match_pattern_Nil: "re_match MERMAID_PATTERN [] = None"
  by (simp add: MERMAID_PATTERN_def startswith_def lit_def)

lemma prepend_Inr: "prepend r (Inr t) = Inr (r @ t)"
  by (simp add: prepend_def)

lemma prepend_Nil: "prepend [] x = x"
  by (simp add: prepend_def split: sum.splits)

lemma prepend_prepend: "prepend a (prepend b x) = prepend (a @ b) x"
  by (simp add: prepend_def split: sum.splits)

lemma re_sub_skip:
  "\<forall>i<length pre. re_match p (drop i (pre @ t)) = None \<Longrightarrow>
   re_sub p repl (pre @ t) = prepend pre (re_sub p repl t)"
proof (induction pre)
  case Nil
  show ?case by (simp add: prepend_Nil)
next
  case (Cons c pre)
  from Cons.prems have h0: "re_match p (c # pre @ t) = None" by fastforce
  have "\<forall>i<length pre. re_match p (drop i (pre @ t)) = None"
  proof (intro allI impI)
    fix i assume "i < length pre"
    then have "Suc i < length (c # pre)" by simp
    with Cons.prems have "re_match p (drop (Suc i) ((c # pre) @ t)) = None" by blast
    then show "re_match p (drop i (pre @ t)) = None" by simp
  qed
  with Cons.IH have "re_sub p repl (pre @ t) = prepend pre (re_sub p repl t)" by blast
  with h0 show ?case by (simp add: prepend_prepend)
qed

lemma re_sub_none:
  assumes "\<forall>i<length s. re_match p (drop i s) = None" "re_match p [] = None"
  shows "re_sub p repl s = Inr s"
  using re_sub_skip [of s p "[]" repl] assms by (simp add: prepend_Inr)

lemma re_sub_match:
  assumes "re_match p s = Some (g, rest)" "length rest < length s"
  shows "re_sub p repl s =
           (case repl g of Inl ex \<Rightarrow> Inl ex | Inr r \<Rightarrow> prepend r (re_sub p repl rest))"
  using assms by (cases s) (auto split: sum.splits)

lemma span_starts_from_set:
  "set (span_starts_from k s) =
     {k + i | i. i < length s \<and> re_match MERMAID_PATTERN (drop i s) \<noteq> None}"
proof (induction s arbitrary: k)
  case Nil
  show ?case by simp
next
  case (Cons c cs)
  have split: "{k + i | i. i < length (c # cs) \<and> re_match MERMAID_PATTERN (drop i (c # cs)) \<noteq> None} =
        (if re_match MERMAID_PATTERN (c # cs) \<noteq> None then {k} else {}) \<union>
        {Suc k + j | j. j < length cs \<and> re_match MERMAID_PATTERN (drop j cs) \<noteq> None}"
    (is "?L = ?A \<union> ?B")
  proof (intro equalityI subsetI)
    fix x assume "x \<in> ?L"
    then obtain i where i: "x = k + i" "i < length (c # cs)"
      "re_match MERMAID_PATTERN (drop i (c # cs)) \<noteq> None" by blast
    show "x \<in> ?A \<union> ?B"
    proof (cases i)
      case 0
      with i show ?thesis by simp
    next
      case (Suc j)
      with i have "x = Suc k + j" "j < length cs" "re_match MERMAID_PATTERN (drop j cs) \<noteq> None"
        by simp_all
      then show ?thesis by blast
    qed
  next
    fix x assume "x \<in> ?A \<union> ?B"
    then consider "x \<in> ?A" | "x \<in> ?B" by blast
    then show "x \<in> ?L"
    proof cases
      case 1
      then have "x = k + 0" "0 < length (c # cs)"
        "re_match MERMAID_PATTERN (drop 0 (c # cs)) \<noteq> None"
        by (simp_all split: if_splits)
      then show ?thesis by blast
    next
      case 2
      then obtain j where j: "x = Suc k + j" "j < length cs"
        "re_match MERMAID_PATTERN (drop j cs) \<noteq> None" by blast
      then have "x = k + Suc j" "Suc j < length (c # cs)"
        "re_match MERMAID_PATTERN (drop (Suc j) (c # cs)) \<noteq> None" by simp_all
      then show ?thesis by blast
    qed
  qed
  show ?case unfolding split using Cons.IH [of "Suc k"] by simp
qed

lemma span_starts_iff:
  assumes "span_starts s = ks" "i < length s"
  shows "(re_match MERMAID_PATTERN (drop i s) = None) = (i \<notin> set ks)"
proof -
  have "set ks = {i. i < length s \<and> re_match MERMAID_PATTERN (drop i s) \<noteq> None}"
    using assms(1) span_starts_from_set [of 0 s] unfolding span_starts_def by simp
  with assms(2) show ?thesis by blast
qed

lemma pattern_codepoints:
  "MERMAID_PATTERN =
     [Lit [60, 112, 114, 101], NotCharStar 62,
      Lit [62, 60, 99, 111, 100, 101, 32, 99, 108, 97, 115, 115, 61, 34, 108, 97, 110, 103,
           117, 97, 103, 101, 45, 109, 101, 114, 109, 97, 105, 100, 34, 62],
      GroupLazyAny, Lit [60, 47, 99, 111, 100, 101, 62, 60, 47, 112, 114, 101, 62]]"
  by (simp add: MERMAID_PATTERN_def lit_def)

lemma replace_chr_Cons:
  "replace_chr old new (x # xs) = (if x = old then new else [x]) @ replace_chr old new xs"
  by (simp add: replace_chr_def)

lemma replace_chr_append:
  "replace_chr old new (xs @ ys) = replace_chr old new xs @ replace_chr old new ys"
  by (simp add: replace_chr_def)

lemma replace_chr_Nil: "replace_chr old new [] = []"
  by (simp add: replace_chr_def)

lemma code_escape_Nil: "code_escape [] = []"
  by (simp add: code_escape_def replace_chr_Nil)

lemma code_escape_Cons: "code_escape (c # b) = escape_char c @ code_escape b"
  by (simp add: code_escape_def escape_char_def replace_chr_Cons replace_chr_append
      replace_chr_Nil lit_def)

lemma code_escape_no_lt: "60 \<notin> set (code_escape b)"
  by (induction b) (auto simp: code_escape_Nil code_escape_Cons escape_char_def lit_def)

lemma charref_group_amp: "charref_group (lit ''amp;'' @ t) = Some (lit ''amp;'')"
  by (simp add: charref_group_def lit_def name_char_def opt_semicolon_def startswith_def)

lemma charref_group_lt: "charref_group (lit ''lt;'' @ t) = Some (lit ''lt;'')"
  by (simp add: charref_group_def lit_def name_char_def opt_semicolon_def startswith_def)

lemma charref_group_gt: "charref_group (lit ''gt;'' @ t) = Some (lit ''gt;'')"
  by (simp add: charref_group_def lit_def name_char_def opt_semicolon_def startswith_def)

lemma charref_group_quot: "charref_group (lit ''quot;'' @ t) = Some (lit ''quot;'')"
  by (simp add: charref_group_def lit_def name_char_def opt_semicolon_def startswith_def)

lemma replace_charref_named:
  "c \<noteq> 35 \<Longrightarrow> replace_charref html5 (c # x # r) = Inr (named_charref html5 (c # x # r))"
  by simp

lemma charref_sub_escape_char:
  "charref_sub html5 (escape_char c @ t) = prepend (unescaped_char html5 c) (charref_sub html5 t)"
proof -
  have ra: "replace_charref html5 (lit ''amp;'') = Inr (named_charref html5 (lit ''amp;''))"
    using replace_charref_named [of 97 html5 109 "[112, 59]"] by (simp add: lit_def)
  have rl: "replace_charref html5 (lit ''lt;'') = Inr (named_charref html5 (lit ''lt;''))"
    using replace_charref_named [of 108 html5 116 "[59]"] by (simp add: lit_def)
  have rg: "replace_charref html5 (lit ''gt;'') = Inr (named_charref html5 (lit ''gt;''))"
    using replace_charref_named [of 103 html5 116 "[59]"] by (simp add: lit_def)
  have rq: "replace_charref html5 (lit ''quot;'') = Inr (named_charref html5 (lit ''quot;''))"
    using replace_charref_named [of 113 html5 117 "[111, 116, 59]"] by (simp add: lit_def)
  have amp: "charref_sub html5 (38 # lit ''amp;'' @ t) =
             prepend (named_charref html5 (lit ''amp;'')) (charref_sub html5 t)"
    using charref_group_amp [of t] ra by (simp add: lit_def)
  have lt: "charref_sub html5 (38 # lit ''lt;'' @ t) =
            prepend (named_charref html5 (lit ''lt;'')) (charref_sub html5 t)"
    using charref_group_lt [of t] rl by (simp add: lit_def)
  have gt: "charref_sub html5 (38 # lit ''gt;'' @ t) =
            prepend (named_charref html5 (lit ''gt;'')) (charref_sub html5 t)"
    using charref_group_gt [of t] rg by (simp add: lit_def)
  have quot: "charref_sub html5 (38 # lit ''quot;'' @ t) =
              prepend (named_charref html5 (lit ''quot;'')) (charref_sub html5 t)"
    using charref_group_quot [of t] rq by (simp add: lit_def)
  have e: "lit ''&amp;'' = 38 # lit ''amp;''" "lit ''&lt;'' = 38 # lit ''lt;''"
    "lit ''&gt;'' = 38 # lit ''gt;''" "lit ''&quot;'' = 38 # lit ''quot;''"
    by (simp_all add: lit_def)
  show ?thesis
    unfolding escape_char_def unescaped_char_def e using amp lt gt quot by simp
qed

lemma charref_sub_code_escape_any:
  "charref_sub html5 (code_escape b) = Inr (concat (map (unescaped_char html5) b))"
  by (induction b)
     (simp_all add: code_escape_Nil code_escape_Cons charref_sub_escape_char prepend_Inr)

lemma unescaped_char_id: "markup_entities html5 \<Longrightarrow> unescaped_char html5 c = [c]"
  by (simp add: markup_entities_def unescaped_char_def named_charref_def lit_def)

lemma charref_sub_code_escape:
  "markup_entities html5 \<Longrightarrow> charref_sub html5 (code_escape b) = Inr b"
  by (induction b)
     (simp_all add: code_escape_Nil code_escape_Cons charref_sub_escape_char prepend_Inr
        unescaped_char_id)

lemma charref_sub_no_amp: "38 \<notin> set s \<Longrightarrow> charref_sub html5 s = Inr s"
  by (induction s) (auto simp: prepend_Inr)

lemma unescape_charref_sub: "unescape html5 s = charref_sub html5 s"
  by (simp add: unescape_def charref_sub_no_amp)

lemma unescape_code_escape:
  "markup_entities html5 \<Longrightarrow> unescape html5 (code_escape b) = Inr b"
  by (simp add: unescape_charref_sub charref_sub_code_escape)

lemma unescape_code_escape_any:
  "unescape html5 (code_escape b) = Inr (concat (map (unescaped_char html5) b))"
  by (simp add: unescape_charref_sub charref_sub_code_escape_any)

lemma mermaid_span_nonempty: "0 < length (mermaid_span attrs body)"
  by (simp add: mermaid_span_def lit_def)

lemma process_span:
  assumes "62 \<notin> set attrs" "60 \<notin> set body"
    and "\<forall>i<length pre. re_match MERMAID_PATTERN (drop i (pre @ mermaid_span attrs body @ t)) = None"
  shows "process_mermaid_blocks html5 (pre @ mermaid_span attrs body @ t) =
         (case unescape html5 body of
            Inl ex \<Rightarrow> Inl ex
          | Inr d \<Rightarrow> prepend (pre @ mermaid_div d) (process_mermaid_blocks html5 t))"
proof -
  have m: "re_match MERMAID_PATTERN (mermaid_span attrs body @ t) = Some (body, t)"
    by (rule re_match_span [OF assms(1,2)])
  have len: "length t < length (mermaid_span attrs body @ t)"
    using mermaid_span_nonempty [of attrs body] by simp
  show ?thesis
    unfolding process_mermaid_blocks_def re_sub_skip [OF assms(3)] re_sub_match [OF m len]
    by (simp add: replace_mermaid_def mermaid_div_def prepend_def prepend_prepend
        split: sum.splits)
qed

lemma process_no_span:
  assumes "\<forall>i<length s. re_match MERMAID_PATTERN (drop i s) = None"
  shows "process_mermaid_blocks html5 s = Inr s"
  unfolding process_mermaid_blocks_def
  by (rule re_sub_none [OF assms re_match_pattern_Nil])

section \<open>Facts about percent-decoding\<close>
















lemma first_piece:
  "(if c \<in> set s then index0 (split_on c s) else Inr s) = Inr (takeWhile (\<lambda>x. x \<noteq> c) s)"
proof (cases "c \<in> set s")
  case True
  then show ?thesis by (simp add: index0_split_on)
next
  case False
  then have tw: "takeWhile (\<lambda>x. x \<noteq> c) s = s"
    by (induction s) auto
  show ?thesis unfolding tw using False by simp
qed

lemma takeWhile_twice:
  "takeWhile (\<lambda>x. x \<noteq> b) (takeWhile (\<lambda>x. x \<noteq> a) s) = takeWhile (\<lambda>x. x \<noteq> a \<and> x \<noteq> b) s"
  by (induction s) auto

lemma normalize_path_eq:
  "normalize_path raw =
     Inr (let s = takeWhile (\<lambda>c. c \<noteq> 63 \<and> c \<noteq> 35) (unquote raw)
          in if s = lit ''/'' then lit ''/index.html'' else s)"
  unfolding normalize_path_def Let_def first_piece
  by (simp add: first_piece takeWhile_twice)


section \<open>Facts about the request handler\<close>

text \<open>
  The title step never raises; \<open>send_error\<close> sends when its message is in Latin-1;
  \<open>do_GET\<close> as one case distinction; what the render sequence leaves in the trace.
\<close>

lemma derive_title_eq: "derive_title content = Inr (title_of content)"
  unfolding title_of_def startswith_first_line
  by (simp add: derive_title_def index0_split_on first_line_def lstrip_chars_def lit_def)

lemma first_run_None: "(first_run bad i s = None) = (\<forall>c\<in>set s. \<not> bad c)"
  by (induction s arbitrary: i) auto

lemma latin1_error_None: "(latin1_error s = None) = (\<forall>c\<in>set s. c < 256)"
  using first_run_None [of "\<lambda>c. 256 \<le> c" 0 s]
  by (auto simp: latin1_error_def not_le split: option.splits)

lemma decimal_less_256: "\<forall>c\<in>set (decimal n). c < 256"
proof (induction n rule: decimal.induct)
  case (1 n)
  show ?case
  proof (cases "n < 10")
    case True
    then show ?thesis by (subst decimal.simps) simp
  next
    case False
    have "n mod 10 < 10" by simp
    then have "48 + n mod 10 < 256" by linarith
    with False 1 show ?thesis by (subst decimal.simps) simp
  qed
qed

lemma send_error_latin1:
  assumes "\<forall>c\<in>set message. c < 256"
  shows "send_error v code message = Inr (error_response code message)"
proof -
  have "\<forall>c\<in>set (status_line code message). c < 256"
    using assms decimal_less_256 [of code] by (auto simp: status_line_def lit_def)
  then have "latin1_error (status_line code message) = None"
    by (simp add: latin1_error_None)
  then show ?thesis by (simp add: send_error_def)
qed

lemma send_error_unavailable:
  "send_error v 500 (lit ''Markdown rendering not available'') =
     Inr (error_response 500 (lit ''Markdown rendering not available''))"
  by (rule send_error_latin1) (simp add: lit_def)

lemma send_error_not_found:
  "send_error v 404 (lit ''File not found'') = Inr (error_response 404 (lit ''File not found''))"
  by (rule send_error_latin1) (simp add: lit_def)

lemma serve_markdown_candidate:
  "serve_markdown e (take (length path - 5) path @ lit ''.md'') =
     (if \<not> MARKDOWN_AVAILABLE e
      then (Inr True, [Send (error_response 500 (lit ''Markdown rendering not available''))])
      else
        (case path_exists (files e) (stat_failure e)
                (path_join (docs_root e) (candidate_md path)) of
           Inl ex \<Rightarrow> (Inl ex, [Raise ex])
         | Inr found \<Rightarrow>
             if \<not> found then (Inr False, [])
             else render e (candidate_md path) (path_join (docs_root e) (candidate_md path))))"
proof -
  let ?md = "take (length path - 5) path @ lit ''.md''"
  have c: "(if startswith ?md (lit ''/'') then drop 1 ?md else ?md) = candidate_md path"
    unfolding candidate_md_def Let_def by (rule refl)
  show ?thesis
    unfolding serve_markdown_def Let_def c send_error_unavailable by (simp split: sum.splits)
qed

lemma outcome_cases: "(\<And>ex. r = Inl ex \<Longrightarrow> P) \<Longrightarrow> (r = Inr True \<Longrightarrow> P) \<Longrightarrow> (r = Inr False \<Longrightarrow> P) \<Longrightarrow> P"
  by (cases r) auto

lemma fst_render_failed: "fst (render_failed e ex) \<noteq> Inr False"
  by (simp add: render_failed_def split: sum.splits)

lemma fst_render: "fst (render e p fp) \<noteq> Inr False"
  by (simp add: render_def after_def fst_render_failed Let_def split: sum.splits option.splits)

lemma do_GET_eq:
  assumes "normalize_path raw = Inr path"
  shows "do_GET e raw =
     (if endswith path (lit ''.html'') then
        (if \<not> MARKDOWN_AVAILABLE e
         then [Send (error_response 500 (lit ''Markdown rendering not available''))]
         else
           (case path_exists (files e) (stat_failure e)
                   (path_join (docs_root e) (candidate_md path)) of
              Inl ex \<Rightarrow> [Raise ex]
            | Inr found \<Rightarrow>
                if \<not> found then [Static_GET raw, reply (superclass_do_GET e raw)]
                else snd (render e (candidate_md path)
                            (path_join (docs_root e) (candidate_md path)))))
      else [Static_GET raw, reply (superclass_do_GET e raw)])"
proof -
  let ?fp = "path_join (docs_root e) (candidate_md path)"
  have r: "(case render e (candidate_md path) ?fp of
              (Inl ex, events) \<Rightarrow> events
            | (Inr served, events) \<Rightarrow>
                if served then events
                else events @ [Static_GET raw, reply (superclass_do_GET e raw)]) =
           snd (render e (candidate_md path) ?fp)"
    using fst_render [of e "candidate_md path" ?fp]
    by (cases "render e (candidate_md path) ?fp") (auto split: sum.splits)
  show ?thesis
    unfolding do_GET_def assms Let_def serve_markdown_candidate
    by (simp add: r split: sum.splits)
qed

lemma files_opened_render_failed: "files_opened (snd (render_failed e ex)) = []"
  by (simp add: render_failed_def split: sum.splits)

lemma static_calls_render_failed: "static_calls (snd (render_failed e ex)) = []"
  by (simp add: render_failed_def split: sum.splits)

lemma files_opened_render: "files_opened (snd (render e p fp)) = [fp]"
  by (simp add: render_def after_def files_opened_render_failed Let_def
      split: sum.splits option.splits)

lemma static_calls_render: "static_calls (snd (render e p fp)) = []"
  by (simp add: render_def after_def static_calls_render_failed Let_def
      split: sum.splits option.splits)

lemma trace_reply:
  "files_opened [Static_GET raw, reply r] = []" "conversions [Static_GET raw, reply r] = []"
  by (simp_all add: reply_def split: sum.splits)

lemma superclass_missing:
  "static_missing e raw \<Longrightarrow>
   superclass_do_GET e raw = Inr (error_response 404 (lit ''File not found''))"
  by (auto simp: static_missing_def superclass_do_GET_def send_error_not_found
      split: prod.splits resolution.splits lookup.splits node.splits)

text \<open>The concrete runs, evaluated once.\<close>

lemmas sample_defs =
  lit_def startswith_def endswith_def candidate_md_def path_join_def path_parts_def
  path_exists_def read_text_def resolve_def fs_error_def path_text_def surrogate_def
  escaped_byte_def sample_env_def unavailable_env_def sample_files_def nihon_def
  sample_stat_failure_def sample_convert_def sample_static_def sample_repr_def quoted_def
  normalize_path_eq unquote_def unquote_run_def is_hexdigit_def is_digit_def digit_value_def
  utf8_step_def continuation_def second_of_three_def second_of_four_def
  translate_path_def unquote_surrogatepass_def utf8_ill_formed_def
  rstrip_chars_def whitespace_def normpath_def normpath_step_def walk.simps
  static_missing_def Let_def

lemma sample_fields:
  "MARKDOWN_AVAILABLE sample_env" "\<not> MARKDOWN_AVAILABLE unavailable_env"
  "docs_root sample_env = [lit ''srv'', lit ''docs'']"
  "directory sample_env = [lit ''srv'', lit ''docs'']"
  "files sample_env = sample_files" "files unavailable_env = sample_files"
  "docs_root unavailable_env = [lit ''srv'', lit ''docs'']"
  "directory unavailable_env = [lit ''srv'', lit ''docs'']"
  "html5_table sample_env = sample_html5"
  "HTML_TEMPLATE sample_env = [Text (lit ''<h1>''), Title_field, Text (lit ''</h1>''), Content_field]"
  "stat_failure sample_env = sample_stat_failure"
  "stat_failure unavailable_env = sample_stat_failure"
  "request_version sample_env = lit ''HTTP/1.1''"
  "unicode_title sample_env = ascii_title"
  "path_repr sample_env = sample_repr"
  "static_found sample_env = sample_static" "static_found unavailable_env = sample_static"
  "markdown_convert sample_env = sample_convert"
  by (simp_all add: sample_env_def unavailable_env_def)

lemma sample_index:
  "normalize_path (lit ''/index.html'') = Inr (lit ''/index.html'')"
  "endswith (lit ''/index.html'') (lit ''.html'')"
  "candidate_md (lit ''/index.html'') = lit ''index.md''"
  "path_join [lit ''srv'', lit ''docs''] (lit ''index.md'') =
     [lit ''srv'', lit ''docs'', lit ''index.md'']"
  "path_exists sample_files sample_stat_failure [lit ''srv'', lit ''docs'', lit ''index.md''] =
     Inr True"
  "read_text sample_files sample_stat_failure sample_repr
     [lit ''srv'', lit ''docs'', lit ''index.md''] = Inr (lit ''# Home'')"
  "sample_convert (lit ''# Home'') = Inr (lit ''<p># Home</p>'')"
  by (simp_all add: sample_defs)

lemma sample_bad:
  "normalize_path (lit ''/bad.html'') = Inr (lit ''/bad.html'')"
  "endswith (lit ''/bad.html'') (lit ''.html'')"
  "candidate_md (lit ''/bad.html'') = lit ''bad.md''"
  "path_join [lit ''srv'', lit ''docs''] (lit ''bad.md'') = [lit ''srv'', lit ''docs'', lit ''bad.md'']"
  "path_exists sample_files sample_stat_failure [lit ''srv'', lit ''docs'', lit ''bad.md''] =
     Inr True"
  "read_text sample_files sample_stat_failure sample_repr
     [lit ''srv'', lit ''docs'', lit ''bad.md''] = Inr (lit ''boom'')"
  "sample_convert (lit ''boom'') = Inl (Exn ''ValueError'' (lit ''a<b''))"
  "translate_path [lit ''srv'', lit ''docs''] (lit ''/bad.html'') =
     ([lit ''srv'', lit ''docs'', lit ''bad.html''], False)"
  "resolve sample_files sample_stat_failure [lit ''srv'', lit ''docs'', lit ''bad.html''] =
     Looked_up (Found [lit ''srv'', lit ''docs'', lit ''bad.html''] (File (lit ''static'')))"
  by (simp_all add: sample_defs)

lemma sample_missing:
  "normalize_path (lit ''/missing.html'') = Inr (lit ''/missing.html'')"
  "endswith (lit ''/missing.html'') (lit ''.html'')"
  "candidate_md (lit ''/missing.html'') = lit ''missing.md''"
  "path_join [lit ''srv'', lit ''docs''] (lit ''missing.md'') =
     [lit ''srv'', lit ''docs'', lit ''missing.md'']"
  "path_exists sample_files sample_stat_failure [lit ''srv'', lit ''docs'', lit ''missing.md''] =
     Inr False"
  "translate_path [lit ''srv'', lit ''docs''] (lit ''/missing.html'') =
     ([lit ''srv'', lit ''docs'', lit ''missing.html''], False)"
  "resolve sample_files sample_stat_failure [lit ''srv'', lit ''docs'', lit ''missing.html''] =
     Looked_up No_entry"
  by (simp_all add: sample_defs)

lemma sample_css:
  "normalize_path (lit ''/style.css'') = Inr (lit ''/style.css'')"
  "\<not> endswith (lit ''/style.css'') (lit ''.html'')"
  "translate_path [lit ''srv'', lit ''docs''] (lit ''/style.css'') =
     ([lit ''srv'', lit ''docs'', lit ''style.css''], False)"
  "resolve sample_files sample_stat_failure [lit ''srv'', lit ''docs'', lit ''style.css''] =
     Looked_up (Found [lit ''srv'', lit ''docs'', lit ''style.css''] (File (lit ''p{}'')))"
  by (simp_all add: sample_defs)

lemma sample_secret:
  "normalize_path (lit ''/../secret.html'') = Inr (lit ''/../secret.html'')"
  "endswith (lit ''/../secret.html'') (lit ''.html'')"
  "candidate_md (lit ''/../secret.html'') = lit ''../secret.md''"
  "path_join [lit ''srv'', lit ''docs''] (lit ''../secret.md'') =
     [lit ''srv'', lit ''docs'', lit ''..'', lit ''secret.md'']"
  "walk sample_files [] [lit ''srv'', lit ''docs'', lit ''..'', lit ''secret.md''] =
     Found [lit ''srv'', lit ''secret.md''] (File (lit ''key''))"
  "path_exists sample_files sample_stat_failure
     [lit ''srv'', lit ''docs'', lit ''..'', lit ''secret.md''] = Inr True"
  "read_text sample_files sample_stat_failure sample_repr
     [lit ''srv'', lit ''docs'', lit ''..'', lit ''secret.md''] = Inr (lit ''key'')"
  "sample_convert (lit ''key'') = Inr (lit ''<p>key</p>'')"
  by (simp_all add: sample_defs)

lemma sample_nihon:
  "normalize_path (lit ''/%E6%97%A5%E6%9C%AC.html'') = Inr (lit ''/'' @ nihon @ lit ''.html'')"
  "endswith (lit ''/'' @ nihon @ lit ''.html'') (lit ''.html'')"
  "candidate_md (lit ''/'' @ nihon @ lit ''.html'') = nihon @ lit ''.md''"
  "take (length (lit ''/'' @ nihon @ lit ''.html'') - 5) (lit ''/'' @ nihon @ lit ''.html'') @
     lit ''.md'' = lit ''/'' @ nihon @ lit ''.md''"
  "path_join [lit ''srv'', lit ''docs''] (nihon @ lit ''.md'') =
     [lit ''srv'', lit ''docs'', nihon @ lit ''.md'']"
  "path_exists sample_files sample_stat_failure [lit ''srv'', lit ''docs'', nihon @ lit ''.md''] =
     Inr True"
  "read_text sample_files sample_stat_failure sample_repr
     [lit ''srv'', lit ''docs'', nihon @ lit ''.md''] =
     Inl (Exn ''IsADirectoryError''
            (lit ''[Errno 21] Is a directory: '' @
             quoted (lit ''/srv/docs/'' @ nihon @ lit ''.md'')))"
  by (simp_all add: sample_defs)

lemma sample_nul:
  "normalize_path (lit ''/a%00.html'') = Inr (lit ''/a'' @ 0 # lit ''.html'')"
  "endswith (lit ''/a'' @ 0 # lit ''.html'') (lit ''.html'')"
  "candidate_md (lit ''/a'' @ 0 # lit ''.html'') = lit ''a'' @ 0 # lit ''.md''"
  "path_join [lit ''srv'', lit ''docs''] (lit ''a'' @ 0 # lit ''.md'') =
     [lit ''srv'', lit ''docs'', lit ''a'' @ 0 # lit ''.md'']"
  "path_exists sample_files sample_stat_failure
     [lit ''srv'', lit ''docs'', lit ''a'' @ 0 # lit ''.md''] = Inr False"
  "translate_path [lit ''srv'', lit ''docs''] (lit ''/a%00.html'') =
     ([lit ''srv'', lit ''docs'', lit ''a'' @ 0 # lit ''.html''], False)"
  "resolve sample_files sample_stat_failure
     [lit ''srv'', lit ''docs'', lit ''a'' @ 0 # lit ''.html''] =
     Unencodable (Exn ''ValueError'' (lit ''embedded null byte''))"
  by (simp_all add: sample_defs)

lemma sample_locked:
  "normalize_path (lit ''/locked/x.html'') = Inr (lit ''/locked/x.html'')"
  "endswith (lit ''/locked/x.html'') (lit ''.html'')"
  "candidate_md (lit ''/locked/x.html'') = lit ''locked/x.md''"
  "path_join [lit ''srv'', lit ''docs''] (lit ''locked/x.md'') =
     [lit ''srv'', lit ''docs'', lit ''locked'', lit ''x.md'']"
  "walk sample_files [] [lit ''srv'', lit ''docs'', lit ''locked'', lit ''x.md''] = No_entry"
  "path_exists sample_files sample_stat_failure
     [lit ''srv'', lit ''docs'', lit ''locked'', lit ''x.md''] =
     Inl (Exn ''PermissionError''
            (lit ''[Errno 13] Permission denied: '' @ quoted (lit ''/srv/docs/locked/x.md'')))"
  by (simp_all add: sample_defs)

lemma sample_raw:
  "normalize_path (lit ''/raw.html'') = Inr (lit ''/raw.html'')"
  "endswith (lit ''/raw.html'') (lit ''.html'')"
  "candidate_md (lit ''/raw.html'') = lit ''raw.md''"
  "path_join [lit ''srv'', lit ''docs''] (lit ''raw.md'') = [lit ''srv'', lit ''docs'', lit ''raw.md'']"
  "path_exists sample_files sample_stat_failure [lit ''srv'', lit ''docs'', lit ''raw.md''] =
     Inr True"
  "read_text sample_files sample_stat_failure sample_repr
     [lit ''srv'', lit ''docs'', lit ''raw.md''] =
     Inl (Exn ''UnicodeDecodeError'' (lit ''invalid start byte''))"
  by (simp_all add: sample_defs)

lemma sample_pages:
  "title_of (lit ''# Home'') = lit ''Home''"
  "title_of (lit ''key'') = lit ''Documentation''"
  "generate_breadcrumb ascii_title (lit ''index.md'') = []"
  \<open>generate_breadcrumb ascii_title (lit ''../secret.md'') =
     lit ''<div class="breadcrumb"><a href="/">Home</a> > <a href="/../">..</a></div>''\<close>
  "process_mermaid_blocks sample_html5 (lit ''<p># Home</p>'') = Inr (lit ''<p># Home</p>'')"
  "process_mermaid_blocks sample_html5 (lit ''<p>key</p>'') = Inr (lit ''<p>key</p>'')"
  by (simp_all add: title_of_def first_line_def strip_def strip_chars_def lstrip_chars_def
      rstrip_chars_def whitespace_def generate_breadcrumb_def title_def replace_chr_def
      is_upper_def is_lower_def process_mermaid_blocks_def pattern_codepoints prepend_def
      lit_def startswith_def)

lemma sample_nihon_error:
  "send_error (lit ''HTTP/1.1'') 500
     (lit ''Error rendering markdown: '' @ lit ''[Errno 21] Is a directory: '' @
      quoted (lit ''/srv/docs/'' @ nihon @ lit ''.md'')) =
   Inl (Exn ''UnicodeEncodeError''
          (39 # lit ''latin-1' codec can't encode characters in position 77-78: ordinal not in range(256)''))"
  by (simp add: send_error_def latin1_error_def status_line_def unicode_encode_error_def
      decimal.simps quoted_def nihon_def lit_def)

lemma sample_nihon_render:
  "render sample_env (nihon @ lit ''.md'') [lit ''srv'', lit ''docs'', nihon @ lit ''.md''] =
     (Inl (Exn ''UnicodeEncodeError''
          (39 # lit ''latin-1' codec can't encode characters in position 77-78: ordinal not in range(256)'')),
      [Open_file [lit ''srv'', lit ''docs'', nihon @ lit ''.md''],
       Raise (Exn ''UnicodeEncodeError''
          (39 # lit ''latin-1' codec can't encode characters in position 77-78: ordinal not in range(256)''))])"
  unfolding render_def sample_fields sample_nihon(7)
  by (simp add: after_def render_failed_def sample_fields sample_nihon_error)

section \<open>Claims\<close>

text \<open>
  C4. For every raw source text: if its first line begins with the heading marker
  \<open>#\<close>, the derived title is that first line with all leading \<open>#\<close> characters and
  the surrounding whitespace stripped, and otherwise it is the fixed default
  \<open>Documentation\<close>; deriving the title never raises. A source whose first line is
  \<open># Getting Started\<close> has the title \<open>Getting Started\<close>.
\<close>

theorem derive_title_first_line:
  "derive_title content =
     Inr (if startswith (first_line content) (lit ''#'')
          then strip (dropWhile (\<lambda>c. c = 35) (first_line content))
          else lit ''Documentation'')
   \<and> derive_title (lit ''# Getting Started'') = Inr (lit ''Getting Started'')
   \<and> derive_title (lit ''# Getting Started'' @ 10 # rest) = Inr (lit ''Getting Started'')"
proof -
  have gen: "derive_title content =
     Inr (if startswith (first_line content) (lit ''#'')
          then strip (dropWhile (\<lambda>c. c = 35) (first_line content))
          else lit ''Documentation'')" for content
    unfolding startswith_first_line
    by (simp add: derive_title_def index0_split_on first_line_def lstrip_chars_def lit_def)
  have fl: "first_line (lit ''# Getting Started'' @ 10 # rest) = lit ''# Getting Started''"
    "first_line (lit ''# Getting Started'') = lit ''# Getting Started''"
    by (simp_all add: first_line_def lit_def)
  have st: "strip (dropWhile (\<lambda>c. c = 35) (lit ''# Getting Started'')) = lit ''Getting Started''"
    by (simp add: strip_def strip_chars_def lstrip_chars_def rstrip_chars_def whitespace_def lit_def)
  have sw: "startswith (lit ''# Getting Started'') (lit ''#'')"
    by (simp add: startswith_def lit_def)
  show ?thesis
    using gen [of content] gen [of "lit ''# Getting Started''"]
      gen [of "lit ''# Getting Started'' @ 10 # rest"]
    by (simp add: fl st sw)
qed

text \<open>
  C3. For every relative markdown path (no separator at its start or end),
  \<open>generate_breadcrumb\<close> splits the path on \<open>/\<close> and discards the last segment. When
  an intermediate segment remains, the result is the breadcrumb container holding the
  Home entry linking to \<open>/\<close> followed, in order, by one entry per intermediate segment,
  labelled with the segment (underscores replaced by spaces, every word capitalised by
  \<open>str.title()\<close>) and linking to the accumulated prefix; when none remains, the result
  is the empty string. \<open>architecture/index.md\<close> yields Home and an Architecture entry
  linking to \<open>/architecture/\<close>; \<open>readme.md\<close> yields the empty string. This holds
  whatever \<open>str.title()\<close> does outside ASCII.
\<close>

theorem generate_breadcrumb_entries:
  assumes "\<not> startswith path (lit ''/'')" and "\<not> endswith path (lit ''/'')"
  shows \<open>generate_breadcrumb ut path =
     (let segs = butlast (split_on 47 path) in
      if segs = [] then []
      else lit ''<div class="breadcrumb">'' @
           join (lit '' > '')
             (crumb_entry (lit ''/'') (lit ''Home'') #
              map (\<lambda>k. crumb_entry (accumulated_prefix (take (Suc k) segs))
                           (crumb_label ut (segs ! k)))
                [0..<length segs]) @
           lit ''</div>'')
   \<and> generate_breadcrumb ut (lit ''architecture/index.md'') =
       lit ''<div class="breadcrumb">'' @
       join (lit '' > '')
         [crumb_entry (lit ''/'') (lit ''Home''),
          crumb_entry (lit ''/architecture/'') (lit ''Architecture'')] @
       lit ''</div>''
   \<and> generate_breadcrumb ut (lit ''readme.md'') = []\<close>
proof -
  have home: \<open>lit ''<a href="/">Home</a>'' = crumb_entry (lit ''/'') (lit ''Home'')\<close>
    by (simp add: crumb_entry_def lit_def)
  have gen: \<open>generate_breadcrumb ut path =
     (let segs = butlast (split_on 47 path) in
      if segs = [] then []
      else lit ''<div class="breadcrumb">'' @
           join (lit '' > '')
             (crumb_entry (lit ''/'') (lit ''Home'') #
              map (\<lambda>k. crumb_entry (accumulated_prefix (take (Suc k) segs))
                           (crumb_label ut (segs ! k)))
                [0..<length segs]) @
           lit ''</div>'')\<close>
    unfolding generate_breadcrumb_def strip_slash_id [OF assms] breadcrumb_loop_map home Let_def
    by (simp add: butlast_Nil_iff)
  have ex1: \<open>generate_breadcrumb ut (lit ''architecture/index.md'') =
       lit ''<div class="breadcrumb">'' @
       join (lit '' > '')
         [crumb_entry (lit ''/'') (lit ''Home''),
          crumb_entry (lit ''/architecture/'') (lit ''Architecture'')] @
       lit ''</div>''\<close>
    by (simp add: generate_breadcrumb_def strip_chars_def lstrip_chars_def rstrip_chars_def
        title_def replace_chr_def is_upper_def is_lower_def crumb_entry_def lit_def)
  have ex2: "generate_breadcrumb ut (lit ''readme.md'') = []"
    by (simp add: generate_breadcrumb_def strip_chars_def lstrip_chars_def rstrip_chars_def
        lit_def)
  from gen ex1 ex2 show ?thesis by blast
qed

theorem generate_breadcrumb_entries_witness:
  \<open>\<not> startswith (lit ''user_guide/api_v2/intro.md'') (lit ''/'') \<and>
   \<not> endswith (lit ''user_guide/api_v2/intro.md'') (lit ''/'') \<and>
   generate_breadcrumb ascii_title (lit ''user_guide/api_v2/intro.md'') =
     lit ''<div class="breadcrumb"><a href="/">Home</a> > <a href="/user_guide/">User Guide</a> > <a href="/user_guide/api_v2/">Api V2</a></div>''\<close>
proof -
  have a: "\<not> startswith (lit ''user_guide/api_v2/intro.md'') (lit ''/'')"
    by code_simp
  have b: "\<not> endswith (lit ''user_guide/api_v2/intro.md'') (lit ''/'')"
    by code_simp
  have c: \<open>(let segs = butlast (split_on 47 (lit ''user_guide/api_v2/intro.md'')) in
      if segs = [] then []
      else lit ''<div class="breadcrumb">'' @
           join (lit '' > '')
             (crumb_entry (lit ''/'') (lit ''Home'') #
              map (\<lambda>k. crumb_entry (accumulated_prefix (take (Suc k) segs))
                           (crumb_label ascii_title (segs ! k)))
                [0..<length segs]) @
           lit ''</div>'') =
     lit ''<div class="breadcrumb"><a href="/">Home</a> > <a href="/user_guide/">User Guide</a> > <a href="/user_guide/api_v2/">Api V2</a></div>''\<close>
    by code_simp
  from generate_breadcrumb_entries [OF a b, of ascii_title] have
    \<open>generate_breadcrumb ascii_title (lit ''user_guide/api_v2/intro.md'') =
     (let segs = butlast (split_on 47 (lit ''user_guide/api_v2/intro.md'')) in
      if segs = [] then []
      else lit ''<div class="breadcrumb">'' @
           join (lit '' > '')
             (crumb_entry (lit ''/'') (lit ''Home'') #
              map (\<lambda>k. crumb_entry (accumulated_prefix (take (Suc k) segs))
                           (crumb_label ascii_title (segs ! k)))
                [0..<length segs]) @
           lit ''</div>'')\<close>
    by blast
  with a b c show ?thesis by simp
qed

text \<open>
  C1. A fragment that holds exactly one span of the form
  \<open><pre ...><code class="language-mermaid">E</code></pre>\<close>, where the attribute text holds
  no \<open>>\<close> and \<open>E\<close> is the encoding of a diagram body \<open>b\<close> by the code-block encoder
  (\<open>b\<close> may hold newlines), is returned by \<open>process_mermaid_blocks\<close> with the span
  replaced by \<open><div class="mermaid">b</div>\<close> and every character outside the span
  unchanged: decoding the character references undoes the encoding, and no exception is
  raised. The table of named references must hold the four entries the encoder refers to.
\<close>

theorem process_mermaid_blocks_single:
  assumes "markup_entities html5" and "62 \<notin> set attrs"
    and "span_starts (pre @ mermaid_span attrs (code_escape b) @ post) = [length pre]"
  shows "process_mermaid_blocks html5 (pre @ mermaid_span attrs (code_escape b) @ post) =
           Inr (pre @ mermaid_div b @ post)
         \<and> unescape html5 (code_escape b) = Inr b"
proof -
  let ?span = "mermaid_span attrs (code_escape b)"
  let ?frag = "pre @ ?span @ post"
  have before: "\<forall>i<length pre. re_match MERMAID_PATTERN (drop i ?frag) = None"
  proof (intro allI impI)
    fix i assume i: "i < length pre"
    then have "i < length ?frag" by simp
    from span_starts_iff [OF assms(3) this] i show "re_match MERMAID_PATTERN (drop i ?frag) = None"
      by simp
  qed
  have after: "\<forall>j<length post. re_match MERMAID_PATTERN (drop j post) = None"
  proof (intro allI impI)
    fix j assume j: "j < length post"
    let ?i = "length pre + length ?span + j"
    have lt: "?i < length ?frag" using j by simp
    have ne: "?i \<noteq> length pre" using mermaid_span_nonempty [of attrs "code_escape b"] by simp
    have "drop ?i ?frag = drop j post" by simp
    with span_starts_iff [OF assms(3) lt] ne show "re_match MERMAID_PATTERN (drop j post) = None"
      by simp
  qed
  have "process_mermaid_blocks html5 ?frag =
        (case unescape html5 (code_escape b) of
           Inl ex \<Rightarrow> Inl ex
         | Inr d \<Rightarrow> prepend (pre @ mermaid_div d) (process_mermaid_blocks html5 post))"
    by (rule process_span [OF assms(2) code_escape_no_lt before])
  then show ?thesis
    by (simp add: unescape_code_escape [OF assms(1)] process_no_span [OF after] prepend_Inr)
qed


theorem process_mermaid_blocks_single_witness:
  \<open>span_starts (lit ''<p>x</p><pre id="d"><code class="language-mermaid">A --&gt; B'' @ [10] @
       lit ''C &amp; &quot;D&quot;</code></pre><p>y</p>'') = [8] \<and>
   process_mermaid_blocks sample_html5
     (lit ''<p>x</p><pre id="d"><code class="language-mermaid">A --&gt; B'' @ [10] @
       lit ''C &amp; &quot;D&quot;</code></pre><p>y</p>'') =
     Inr (lit ''<p>x</p><div class="mermaid">A --> B'' @ [10] @ lit ''C & "D"</div><p>y</p>'')\<close>
proof -
  let ?pre = "lit ''<p>x</p>''" and ?post = "lit ''<p>y</p>''"
  let ?attrs = \<open>lit '' id="d"''\<close>
  let ?b = \<open>lit ''A --> B'' @ [10] @ lit ''C & "D"''\<close>
  let ?frag = \<open>lit ''<p>x</p><pre id="d"><code class="language-mermaid">A --&gt; B'' @ [10] @
       lit ''C &amp; &quot;D&quot;</code></pre><p>y</p>''\<close>
  have frag: "?pre @ mermaid_span ?attrs (code_escape ?b) @ ?post = ?frag"
    by (simp add: mermaid_span_def code_escape_def replace_chr_def lit_def)
  have h1: "markup_entities sample_html5"
    by (simp add: markup_entities_def sample_html5_def lit_def)
  have h2: "62 \<notin> set ?attrs"
    by (simp add: lit_def)
  have st: "span_starts ?frag = [8]"
    by (simp add: span_starts_def pattern_codepoints startswith_def lit_def)
  have h3: "span_starts (?pre @ mermaid_span ?attrs (code_escape ?b) @ ?post) = [length ?pre]"
    unfolding frag st by (simp add: lit_def)
  have out: \<open>?pre @ mermaid_div ?b @ ?post =
             lit ''<p>x</p><div class="mermaid">A --> B'' @ [10] @ lit ''C & "D"</div><p>y</p>''\<close>
    by (simp add: mermaid_div_def lit_def)
  from process_mermaid_blocks_single [OF h1 h2 h3] st show ?thesis
    unfolding frag out by simp
qed

text \<open>
  C2. A fragment that holds exactly two spans with encoded bodies yields two
  \<open>mermaid\<close> elements, the first with the decoded first body and the second with the
  decoded second body, and the text before, between and after the spans is unchanged;
  decoding an encoded body raises no exception. A fragment that holds no span is returned
  as it is.
\<close>

theorem process_mermaid_blocks_two_or_none:
  "(62 \<notin> set attrs1 \<and> 62 \<notin> set attrs2 \<and>
    span_starts (p0 @ mermaid_span attrs1 (code_escape b1) @ p1 @
                 mermaid_span attrs2 (code_escape b2) @ p2) =
      [length p0, length p0 + length (mermaid_span attrs1 (code_escape b1)) + length p1]
    \<longrightarrow>
    process_mermaid_blocks html5
      (p0 @ mermaid_span attrs1 (code_escape b1) @ p1 @
       mermaid_span attrs2 (code_escape b2) @ p2) =
      (case unescape html5 (code_escape b1) of
         Inl ex \<Rightarrow> Inl ex
       | Inr d1 \<Rightarrow>
           (case unescape html5 (code_escape b2) of
              Inl ex \<Rightarrow> Inl ex
            | Inr d2 \<Rightarrow> Inr (p0 @ mermaid_div d1 @ p1 @ mermaid_div d2 @ p2))))
   \<and> \<not> isl (unescape html5 (code_escape b1))
   \<and> \<not> isl (unescape html5 (code_escape b2))
   \<and> (span_starts s = [] \<longrightarrow> process_mermaid_blocks html5 s = Inr s)"
proof (intro conjI impI)
  assume "span_starts s = []"
  then have "\<forall>i<length s. re_match MERMAID_PATTERN (drop i s) = None"
    using span_starts_iff [of s "[]"] by simp
  then show "process_mermaid_blocks html5 s = Inr s"
    by (rule process_no_span)
next
  show "\<not> isl (unescape html5 (code_escape b1))"
    by (simp add: unescape_code_escape_any)
next
  show "\<not> isl (unescape html5 (code_escape b2))"
    by (simp add: unescape_code_escape_any)
next
  let ?s1 = "mermaid_span attrs1 (code_escape b1)"
  let ?s2 = "mermaid_span attrs2 (code_escape b2)"
  let ?frag = "p0 @ ?s1 @ p1 @ ?s2 @ p2"
  let ?ks = "[length p0, length p0 + length ?s1 + length p1]"
  assume "62 \<notin> set attrs1 \<and> 62 \<notin> set attrs2 \<and> span_starts ?frag = ?ks"
  then have a1: "62 \<notin> set attrs1" and a2: "62 \<notin> set attrs2" and st: "span_starts ?frag = ?ks"
    by blast+
  have n1: "0 < length ?s1" and n2: "0 < length ?s2"
    by (rule mermaid_span_nonempty)+
  have before: "\<forall>i<length p0. re_match MERMAID_PATTERN (drop i ?frag) = None"
  proof (intro allI impI)
    fix i assume i: "i < length p0"
    then have "i < length ?frag" by simp
    from span_starts_iff [OF st this] i show "re_match MERMAID_PATTERN (drop i ?frag) = None"
      by simp
  qed
  have between: "\<forall>i<length p1. re_match MERMAID_PATTERN (drop i (p1 @ ?s2 @ p2)) = None"
  proof (intro allI impI)
    fix i assume i: "i < length p1"
    let ?k = "length p0 + length ?s1 + i"
    have lt: "?k < length ?frag" using i by simp
    have d: "drop ?k ?frag = drop i (p1 @ ?s2 @ p2)" by simp
    have "?k \<notin> set ?ks" using i n1 by simp
    with span_starts_iff [OF st lt] d
    show "re_match MERMAID_PATTERN (drop i (p1 @ ?s2 @ p2)) = None" by simp
  qed
  have after: "\<forall>j<length p2. re_match MERMAID_PATTERN (drop j p2) = None"
  proof (intro allI impI)
    fix j assume j: "j < length p2"
    let ?k = "length p0 + length ?s1 + length p1 + length ?s2 + j"
    have lt: "?k < length ?frag" using j by simp
    have d: "drop ?k ?frag = drop j p2" by simp
    have "?k \<notin> set ?ks" using n1 n2 by simp
    with span_starts_iff [OF st lt] d
    show "re_match MERMAID_PATTERN (drop j p2) = None" by simp
  qed
  have first: "process_mermaid_blocks html5 ?frag =
        (case unescape html5 (code_escape b1) of
           Inl ex \<Rightarrow> Inl ex
         | Inr d \<Rightarrow> prepend (p0 @ mermaid_div d) (process_mermaid_blocks html5 (p1 @ ?s2 @ p2)))"
    by (rule process_span [OF a1 code_escape_no_lt before])
  have second: "process_mermaid_blocks html5 (p1 @ ?s2 @ p2) =
        (case unescape html5 (code_escape b2) of
           Inl ex \<Rightarrow> Inl ex
         | Inr d \<Rightarrow> prepend (p1 @ mermaid_div d) (process_mermaid_blocks html5 p2))"
    by (rule process_span [OF a2 code_escape_no_lt between])
  have last: "process_mermaid_blocks html5 p2 = Inr p2"
    by (rule process_no_span [OF after])
  show "process_mermaid_blocks html5 ?frag =
      (case unescape html5 (code_escape b1) of
         Inl ex \<Rightarrow> Inl ex
       | Inr d1 \<Rightarrow>
           (case unescape html5 (code_escape b2) of
              Inl ex \<Rightarrow> Inl ex
            | Inr d2 \<Rightarrow> Inr (p0 @ mermaid_div d1 @ p1 @ mermaid_div d2 @ p2)))"
    unfolding first second last
    by (simp add: prepend_def split: sum.splits)
qed


theorem process_mermaid_blocks_two_or_none_witness:
  \<open>span_starts (lit ''a<pre><code class="language-mermaid">x&lt;y</code></pre><hr><pre class="c"><code class="language-mermaid">A&amp;B</code></pre>z'') = [1, 60] \<and>
   process_mermaid_blocks sample_html5
     (lit ''a<pre><code class="language-mermaid">x&lt;y</code></pre><hr><pre class="c"><code class="language-mermaid">A&amp;B</code></pre>z'') =
     Inr (lit ''a<div class="mermaid">x<y</div><hr><div class="mermaid">A&B</div>z'') \<and>
   span_starts (lit ''<pre><code class="language-python">x</code></pre>'') = [] \<and>
   process_mermaid_blocks sample_html5 (lit ''<pre><code class="language-python">x</code></pre>'') =
     Inr (lit ''<pre><code class="language-python">x</code></pre>'')\<close>
proof -
  let ?c = \<open>lit '' class="c"''\<close>
  let ?frag = \<open>lit ''a<pre><code class="language-mermaid">x&lt;y</code></pre><hr><pre class="c"><code class="language-mermaid">A&amp;B</code></pre>z''\<close>
  let ?s = \<open>lit ''<pre><code class="language-python">x</code></pre>''\<close>
  have frag: "lit ''a'' @ mermaid_span [] (code_escape (lit ''x<y'')) @ lit ''<hr>'' @
              mermaid_span ?c (code_escape (lit ''A&B'')) @ lit ''z'' = ?frag"
    by (simp add: mermaid_span_def code_escape_def replace_chr_def lit_def)
  have st: "span_starts ?frag = [1, 60]"
    by (simp add: span_starts_def pattern_codepoints startswith_def lit_def)
  have ks: "[length (lit ''a''),
             length (lit ''a'') + length (mermaid_span [] (code_escape (lit ''x<y''))) +
             length (lit ''<hr>'')] = [1, 60]"
    by (simp add: mermaid_span_def code_escape_def replace_chr_def lit_def)
  have h: "62 \<notin> set [] \<and> 62 \<notin> set ?c \<and>
           span_starts (lit ''a'' @ mermaid_span [] (code_escape (lit ''x<y'')) @ lit ''<hr>'' @
              mermaid_span ?c (code_escape (lit ''A&B'')) @ lit ''z'') =
           [length (lit ''a''),
             length (lit ''a'') + length (mermaid_span [] (code_escape (lit ''x<y''))) +
             length (lit ''<hr>'')]"
    unfolding frag ks st by (simp add: lit_def)
  have none: "span_starts ?s = []"
    by (simp add: span_starts_def pattern_codepoints startswith_def lit_def)
  have ents: "markup_entities sample_html5"
    by (simp add: markup_entities_def sample_html5_def lit_def)
  have out: \<open>lit ''a'' @ mermaid_div (lit ''x<y'') @ lit ''<hr>'' @ mermaid_div (lit ''A&B'') @ lit ''z'' =
             lit ''a<div class="mermaid">x<y</div><hr><div class="mermaid">A&B</div>z''\<close>
    by (simp add: mermaid_div_def lit_def)
  from process_mermaid_blocks_two_or_none
    [where ?attrs1.0 = "[]" and ?attrs2.0 = ?c and ?p0.0 = "lit ''a''" and ?b1.0 = "lit ''x<y''"
       and ?p1.0 = "lit ''<hr>''" and ?b2.0 = "lit ''A&B''" and ?p2.0 = "lit ''z''"
       and ?html5.0 = sample_html5 and s = ?s]
    h none
  have "process_mermaid_blocks sample_html5 ?frag =
          (case unescape sample_html5 (code_escape (lit ''x<y'')) of
             Inl ex \<Rightarrow> Inl ex
           | Inr d1 \<Rightarrow>
               (case unescape sample_html5 (code_escape (lit ''A&B'')) of
                  Inl ex \<Rightarrow> Inl ex
                | Inr d2 \<Rightarrow>
                    Inr (lit ''a'' @ mermaid_div d1 @ lit ''<hr>'' @ mermaid_div d2 @ lit ''z'')))"
    and "process_mermaid_blocks sample_html5 ?s = Inr ?s"
    unfolding frag by blast+
  then show ?thesis
    unfolding unescape_code_escape [OF ents] using st none by (simp add: out)
qed


text \<open>
  C6, read for every request with no markdown file and no static file behind it. Three
  such requests that are not answered with 404. Without the renderer, \<open>/missing.html\<close>
  is answered by \<open>serve_markdown\<close> with the fixed 500 response before the disk is
  looked at, and the static handler is not called. With the renderer, the existence
  check of \<open>/locked/x.html\<close> is refused by the operating system (a directory that may
  not be searched): \<open>exists()\<close> raises outside the \<open>try\<close> block, the exception leaves
  \<open>do_GET\<close> and the static handler is not called. The name of \<open>/a%00.html\<close> holds
  U+0000: the existence check is false, the static handler is called, and its \<open>open\<close>
  raises a \<open>ValueError\<close> that \<open>send_head\<close> does not catch.
\<close>

theorem do_GET_missing_without_404:
  "(normalize_path (lit ''/missing.html'') = Inr (lit ''/missing.html'')
    \<and> endswith (lit ''/missing.html'') (lit ''.html'')
    \<and> path_exists (files unavailable_env) (stat_failure unavailable_env)
          (path_join (docs_root unavailable_env) (candidate_md (lit ''/missing.html''))) =
        Inr False
    \<and> static_missing unavailable_env (lit ''/missing.html'')
    \<and> do_GET unavailable_env (lit ''/missing.html'') =
        [Send (error_response 500 (lit ''Markdown rendering not available''))]
    \<and> static_calls (do_GET unavailable_env (lit ''/missing.html'')) = []
    \<and> map status (sends (do_GET unavailable_env (lit ''/missing.html''))) = [500])
   \<and> (MARKDOWN_AVAILABLE sample_env
    \<and> normalize_path (lit ''/locked/x.html'') = Inr (lit ''/locked/x.html'')
    \<and> endswith (lit ''/locked/x.html'') (lit ''.html'')
    \<and> walk (files sample_env) []
          (path_join (docs_root sample_env) (candidate_md (lit ''/locked/x.html''))) = No_entry
    \<and> do_GET sample_env (lit ''/locked/x.html'') =
        [Raise (Exn ''PermissionError''
                  (lit ''[Errno 13] Permission denied: '' @
                   quoted (lit ''/srv/docs/locked/x.md'')))]
    \<and> static_calls (do_GET sample_env (lit ''/locked/x.html'')) = [])
   \<and> (normalize_path (lit ''/a%00.html'') = Inr (lit ''/a'' @ 0 # lit ''.html'')
    \<and> endswith (lit ''/a'' @ 0 # lit ''.html'') (lit ''.html'')
    \<and> path_exists (files sample_env) (stat_failure sample_env)
          (path_join (docs_root sample_env) (candidate_md (lit ''/a'' @ 0 # lit ''.html''))) =
        Inr False
    \<and> do_GET sample_env (lit ''/a%00.html'') =
        [Static_GET (lit ''/a%00.html''), Raise (Exn ''ValueError'' (lit ''embedded null byte''))]
    \<and> sends (do_GET sample_env (lit ''/a%00.html'')) = [])"
proof -
  have a: "do_GET unavailable_env (lit ''/missing.html'') =
       [Send (error_response 500 (lit ''Markdown rendering not available''))]"
    by (simp add: do_GET_eq [OF sample_missing(1)] sample_missing(2) sample_fields)
  have am: "static_missing unavailable_env (lit ''/missing.html'')"
    by (simp add: static_missing_def sample_fields sample_missing)
  have l: "do_GET sample_env (lit ''/locked/x.html'') =
       [Raise (Exn ''PermissionError''
                 (lit ''[Errno 13] Permission denied: '' @
                  quoted (lit ''/srv/docs/locked/x.md'')))]"
    by (simp add: do_GET_eq [OF sample_locked(1)] sample_locked(2,3,4,6) sample_fields)
  have s: "superclass_do_GET sample_env (lit ''/a%00.html'') =
       Inl (Exn ''ValueError'' (lit ''embedded null byte''))"
    unfolding superclass_do_GET_def sample_fields sample_nul(6) prod.case sample_nul(7)
    by simp
  have n: "do_GET sample_env (lit ''/a%00.html'') =
       [Static_GET (lit ''/a%00.html''), Raise (Exn ''ValueError'' (lit ''embedded null byte''))]"
    by (simp add: do_GET_eq [OF sample_nul(1)] sample_nul(2,3,4,5) sample_fields s reply_def)
  show ?thesis
    unfolding a l n
    by (simp add: sample_fields sample_missing sample_locked sample_nul am error_response_def)
qed

text \<open>
  C6, for the requests that reach the static handler. For every request whose normalised
  path does not end in \<open>.html\<close>, with or without the renderer, and for every request
  whose path ends in \<open>.html\<close> while the renderer is available and the existence check
  of the candidate markdown file returns false, the handler does nothing but call the
  static handler: no markdown file is opened and nothing is converted. When the operating
  system does not find the path that the static handler translates the request to, the
  answer is \<open>send_error(404, "File not found")\<close>.
\<close>

theorem do_GET_falls_through:
  assumes "normalize_path raw = Inr path"
    and "\<not> endswith path (lit ''.html'') \<or>
         (MARKDOWN_AVAILABLE e \<and>
          path_exists (files e) (stat_failure e)
            (path_join (docs_root e) (candidate_md path)) = Inr False)"
  shows "do_GET e raw = [Static_GET raw, reply (superclass_do_GET e raw)]
         \<and> files_opened (do_GET e raw) = []
         \<and> conversions (do_GET e raw) = []
         \<and> (static_missing e raw \<longrightarrow>
              do_GET e raw =
                [Static_GET raw, Send (error_response 404 (lit ''File not found''))]
              \<and> status (error_response 404 (lit ''File not found'')) = 404)"
proof -
  have d: "do_GET e raw = [Static_GET raw, reply (superclass_do_GET e raw)]"
    using assms(2) by (auto simp: do_GET_eq [OF assms(1)])
  have m: "static_missing e raw \<longrightarrow>
           do_GET e raw = [Static_GET raw, Send (error_response 404 (lit ''File not found''))]"
    unfolding d by (simp add: superclass_missing reply_def)
  have s: "status (error_response 404 (lit ''File not found'')) = 404"
    by (simp add: error_response_def)
  have f: "files_opened (do_GET e raw) = []" and c: "conversions (do_GET e raw) = []"
    unfolding d by (rule trace_reply)+
  from d f c m s show ?thesis by blast
qed

theorem do_GET_falls_through_witness:
  "do_GET sample_env (lit ''/missing.html'') =
     [Static_GET (lit ''/missing.html''), Send (error_response 404 (lit ''File not found''))]
   \<and> status (error_response 404 (lit ''File not found'')) = 404
   \<and> do_GET sample_env (lit ''/style.css'') =
       [Static_GET (lit ''/style.css''),
        Send \<lparr>status = 200, reason = lit ''OK'', headers = [], body_text = lit ''p{}''\<rparr>]
   \<and> do_GET unavailable_env (lit ''/style.css'') =
       [Static_GET (lit ''/style.css''),
        Send \<lparr>status = 200, reason = lit ''OK'', headers = [], body_text = lit ''p{}''\<rparr>]"
proof -
  have m: "\<not> endswith (lit ''/missing.html'') (lit ''.html'') \<or>
           (MARKDOWN_AVAILABLE sample_env \<and>
            path_exists (files sample_env) (stat_failure sample_env)
              (path_join (docs_root sample_env) (candidate_md (lit ''/missing.html''))) =
            Inr False)"
    by (simp add: sample_fields sample_missing)
  have c: "\<not> endswith (lit ''/style.css'') (lit ''.html'') \<or>
           (MARKDOWN_AVAILABLE e \<and>
            path_exists (files e) (stat_failure e)
              (path_join (docs_root e) (candidate_md (lit ''/style.css''))) = Inr False)" for e
    by (simp add: sample_css)
  have sm: "static_missing sample_env (lit ''/missing.html'')"
    by (simp add: static_missing_def sample_fields sample_missing)
  have s: "superclass_do_GET sample_env (lit ''/style.css'') =
           Inr \<lparr>status = 200, reason = lit ''OK'', headers = [], body_text = lit ''p{}''\<rparr>"
    "superclass_do_GET unavailable_env (lit ''/style.css'') =
           Inr \<lparr>status = 200, reason = lit ''OK'', headers = [], body_text = lit ''p{}''\<rparr>"
    by (simp_all add: superclass_do_GET_def sample_fields sample_css sample_static_def)
  from do_GET_falls_through [OF sample_missing(1) m] sm
  have a: "do_GET sample_env (lit ''/missing.html'') =
     [Static_GET (lit ''/missing.html''), Send (error_response 404 (lit ''File not found''))]
     \<and> status (error_response 404 (lit ''File not found'')) = 404"
    by blast
  from do_GET_falls_through [OF sample_css(1) c [of sample_env]]
  have b: "do_GET sample_env (lit ''/style.css'') =
       [Static_GET (lit ''/style.css''),
        Send \<lparr>status = 200, reason = lit ''OK'', headers = [], body_text = lit ''p{}''\<rparr>]"
    by (simp add: s reply_def)
  from do_GET_falls_through [OF sample_css(1) c [of unavailable_env]]
  have u: "do_GET unavailable_env (lit ''/style.css'') =
       [Static_GET (lit ''/style.css''),
        Send \<lparr>status = 200, reason = lit ''OK'', headers = [], body_text = lit ''p{}''\<rparr>]"
    by (simp add: s reply_def)
  from a b u show ?thesis by blast
qed

text \<open>
  C7, at a request where the code does not do what the claim says. The handler of the
  \<open>try\<close> block passes the text of the exception to \<open>send_error\<close>, which encodes its
  status line as Latin-1 before it sends anything. The request
  \<open>/%E6%97%A5%E6%9C%AC.html\<close> of version HTTP/1.1, where the candidate markdown path
  exists and is a directory: \<open>open\<close> raises \<open>IsADirectoryError\<close> with the file name in
  its text, \<open>send_error\<close> raises \<open>UnicodeEncodeError\<close> inside the handler, the
  exception leaves \<open>do_GET\<close>, and no response is sent, neither the 500 nor any other.
\<close>

theorem render_error_not_sent:
  "MARKDOWN_AVAILABLE sample_env
   \<and> request_version sample_env = lit ''HTTP/1.1''
   \<and> normalize_path (lit ''/%E6%97%A5%E6%9C%AC.html'') = Inr (lit ''/'' @ nihon @ lit ''.html'')
   \<and> path_exists (files sample_env) (stat_failure sample_env)
         [lit ''srv'', lit ''docs'', nihon @ lit ''.md''] = Inr True
   \<and> read_text (files sample_env) (stat_failure sample_env) (path_repr sample_env)
         [lit ''srv'', lit ''docs'', nihon @ lit ''.md''] =
       Inl (Exn ''IsADirectoryError''
              (lit ''[Errno 21] Is a directory: '' @
               quoted (lit ''/srv/docs/'' @ nihon @ lit ''.md'')))
   \<and> do_GET sample_env (lit ''/%E6%97%A5%E6%9C%AC.html'') =
       [Open_file [lit ''srv'', lit ''docs'', nihon @ lit ''.md''],
        Raise (Exn ''UnicodeEncodeError''
          (39 # lit ''latin-1' codec can't encode characters in position 77-78: ordinal not in range(256)''))]
   \<and> sends (do_GET sample_env (lit ''/%E6%97%A5%E6%9C%AC.html'')) = []"
proof -
  have d: "do_GET sample_env (lit ''/%E6%97%A5%E6%9C%AC.html'') =
       [Open_file [lit ''srv'', lit ''docs'', nihon @ lit ''.md''],
        Raise (Exn ''UnicodeEncodeError''
          (39 # lit ''latin-1' codec can't encode characters in position 77-78: ordinal not in range(256)''))]"
    unfolding do_GET_eq [OF sample_nihon(1)] sample_nihon(3) sample_fields sample_nihon(5)
      sample_nihon(6) sample_nihon_render [unfolded sample_fields]
    by (simp add: sample_nihon(2) sample_fields)
  show ?thesis
    unfolding d by (simp add: sample_fields sample_nihon)
qed

text \<open>
  C8. When \<open>MARKDOWN_AVAILABLE\<close> is false, every request whose normalised path ends in
  \<open>.html\<close> gets the one response \<open>send_error(500, "Markdown rendering not available")\<close>:
  no markdown file is opened, nothing is converted and the static handler is not called,
  whether or not a markdown file exists. Every other request is handed to the static
  handler as before.
\<close>

theorem do_GET_renderer_unavailable:
  assumes "\<not> MARKDOWN_AVAILABLE e" and "normalize_path raw = Inr path"
  shows "do_GET e raw =
           (if endswith path (lit ''.html'')
            then [Send (error_response 500 (lit ''Markdown rendering not available''))]
            else [Static_GET raw, reply (superclass_do_GET e raw)])
         \<and> (endswith path (lit ''.html'') \<longrightarrow>
              files_opened (do_GET e raw) = [] \<and> conversions (do_GET e raw) = []
              \<and> static_calls (do_GET e raw) = [])
         \<and> status (error_response 500 (lit ''Markdown rendering not available'')) = 500
         \<and> reason (error_response 500 (lit ''Markdown rendering not available'')) =
             lit ''Markdown rendering not available''"
  using assms(1) by (simp add: do_GET_eq [OF assms(2)] error_response_def)

theorem do_GET_renderer_unavailable_witness:
  "\<not> MARKDOWN_AVAILABLE unavailable_env
   \<and> path_exists (files unavailable_env) (stat_failure unavailable_env)
         [lit ''srv'', lit ''docs'', lit ''index.md''] = Inr True
   \<and> do_GET unavailable_env (lit ''/index.html'') =
       [Send (error_response 500 (lit ''Markdown rendering not available''))]
   \<and> files_opened (do_GET unavailable_env (lit ''/index.html'')) = []
   \<and> do_GET unavailable_env (lit ''/style.css'') =
       [Static_GET (lit ''/style.css''),
        Send \<lparr>status = 200, reason = lit ''OK'', headers = [], body_text = lit ''p{}''\<rparr>]"
proof -
  have a: "\<not> MARKDOWN_AVAILABLE unavailable_env" by (rule sample_fields)
  have ex: "path_exists (files unavailable_env) (stat_failure unavailable_env)
         [lit ''srv'', lit ''docs'', lit ''index.md''] = Inr True"
    using sample_index(5) by (simp add: sample_fields)
  have s: "superclass_do_GET unavailable_env (lit ''/style.css'') =
           Inr \<lparr>status = 200, reason = lit ''OK'', headers = [], body_text = lit ''p{}''\<rparr>"
    by (simp add: superclass_do_GET_def sample_fields sample_css sample_static_def)
  from do_GET_renderer_unavailable [OF a sample_index(1)]
    do_GET_renderer_unavailable [OF a sample_css(1)] ex a s
  show ?thesis by (simp add: sample_index(2) sample_css(2) reply_def)
qed

text \<open>
  C9. No branch of \<open>serve_markdown\<close> compares the joined path with the documentation
  root: with the renderer available it opens whatever path the existence check accepts
  (last conjunct). The request \<open>/../secret.html\<close> on the sample disk, root \<open>/srv/docs\<close>:
  the normalised path keeps its \<open>..\<close> segment, the candidate joined to the root is
  \<open>/srv/docs/../secret.md\<close>, which resolves to the existing file \<open>/srv/secret.md\<close>
  outside the root, and the handler reads that file, converts it and sends it as a 200
  page.
\<close>

theorem traversal_reads_outside_root:
  \<open>normalize_path (lit ''/../secret.html'') = Inr (lit ''/../secret.html'')
   \<and> endswith (lit ''/../secret.html'') (lit ''.html'')
   \<and> lit ''..'' \<in> set (split_on 47 (lit ''/../secret.html''))
   \<and> path_join (docs_root sample_env) (candidate_md (lit ''/../secret.html'')) =
       [lit ''srv'', lit ''docs'', lit ''..'', lit ''secret.md'']
   \<and> walk (files sample_env) [] [lit ''srv'', lit ''docs'', lit ''..'', lit ''secret.md''] =
       Found [lit ''srv'', lit ''secret.md''] (File (lit ''key''))
   \<and> \<not> prefix (docs_root sample_env) [lit ''srv'', lit ''secret.md'']
   \<and> do_GET sample_env (lit ''/../secret.html'') =
       [Open_file [lit ''srv'', lit ''docs'', lit ''..'', lit ''secret.md''],
        Convert_markdown (lit ''key''),
        Send (send_page
          (lit ''<h1>Documentation</h1><div class="breadcrumb"><a href="/">Home</a> > <a href="/../">..</a></div><div class="content"><p>key</p></div>''))]
   \<and> files_opened (snd (serve_markdown e md_path)) =
       (if MARKDOWN_AVAILABLE e \<and>
           path_exists (files e) (stat_failure e)
             (path_join (docs_root e)
                (if startswith md_path (lit ''/'') then drop 1 md_path else md_path)) = Inr True
        then [path_join (docs_root e)
                (if startswith md_path (lit ''/'') then drop 1 md_path else md_path)]
        else [])\<close>
proof -
  have seg: "lit ''..'' \<in> set (split_on 47 (lit ''/../secret.html''))"
    by (simp add: lit_def)
  have out: "\<not> prefix (docs_root sample_env) [lit ''srv'', lit ''secret.md'']"
    by (simp add: sample_fields lit_def)
  have page: \<open>format_template [Text (lit ''<h1>''), Title_field, Text (lit ''</h1>''), Content_field]
           (lit ''Documentation'')
           (lit ''<div class="breadcrumb"><a href="/">Home</a> > <a href="/../">..</a></div>'' @
            lit ''<div class="content">'' @ lit ''<p>key</p>'' @ lit ''</div>'') =
          lit ''<h1>Documentation</h1><div class="breadcrumb"><a href="/">Home</a> > <a href="/../">..</a></div><div class="content"><p>key</p></div>''\<close>
    by (simp add: format_template_def lit_def)
  have enc: \<open>utf8_error (lit ''<h1>Documentation</h1><div class="breadcrumb"><a href="/">Home</a> > <a href="/../">..</a></div><div class="content"><p>key</p></div>'') = None\<close>
    by (simp add: utf8_error_def surrogate_def lit_def)
  have r: \<open>render sample_env (lit ''../secret.md'')
         [lit ''srv'', lit ''docs'', lit ''..'', lit ''secret.md''] =
       (Inr True,
        [Open_file [lit ''srv'', lit ''docs'', lit ''..'', lit ''secret.md''],
         Convert_markdown (lit ''key''),
         Send (send_page
          (lit ''<h1>Documentation</h1><div class="breadcrumb"><a href="/">Home</a> > <a href="/../">..</a></div><div class="content"><p>key</p></div>''))])\<close>
    unfolding render_def sample_fields sample_secret(7)
    by (simp add: sample_fields sample_secret(8) sample_pages derive_title_eq page enc Let_def)
  have d: \<open>do_GET sample_env (lit ''/../secret.html'') =
       [Open_file [lit ''srv'', lit ''docs'', lit ''..'', lit ''secret.md''],
        Convert_markdown (lit ''key''),
        Send (send_page
          (lit ''<h1>Documentation</h1><div class="breadcrumb"><a href="/">Home</a> > <a href="/../">..</a></div><div class="content"><p>key</p></div>''))]\<close>
    unfolding do_GET_eq [OF sample_secret(1)] sample_secret(3) sample_fields sample_secret(4)
      sample_secret(6) r [unfolded sample_fields]
    by (simp add: sample_secret(2) sample_fields)
  have g: "files_opened (snd (serve_markdown e md_path)) =
       (if MARKDOWN_AVAILABLE e \<and>
           path_exists (files e) (stat_failure e)
             (path_join (docs_root e)
                (if startswith md_path (lit ''/'') then drop 1 md_path else md_path)) = Inr True
        then [path_join (docs_root e)
                (if startswith md_path (lit ''/'') then drop 1 md_path else md_path)]
        else [])"
    by (auto simp: serve_markdown_def Let_def files_opened_render send_error_unavailable
        split: sum.splits)
  have j: "path_join (docs_root sample_env) (candidate_md (lit ''/../secret.html'')) =
       [lit ''srv'', lit ''docs'', lit ''..'', lit ''secret.md'']"
    unfolding sample_secret(3) sample_fields by (rule sample_secret(4))
  have w: "walk (files sample_env) [] [lit ''srv'', lit ''docs'', lit ''..'', lit ''secret.md''] =
       Found [lit ''srv'', lit ''secret.md''] (File (lit ''key''))"
    unfolding sample_fields by (rule sample_secret(5))
  from sample_secret(1,2) seg j w out d g
  show ?thesis by blast
qed

text \<open>
  C10, at a request where the code does not do what the claim says. In the handler of the
  \<open>try\<close> block \<open>return True\<close> follows \<open>send_error\<close>. For the markdown path of the
  request \<open>/%E6%97%A5%E6%9C%AC.html\<close>, which exists, the rendering raises and
  \<open>send_error\<close> raises in turn on the text of the exception: \<open>serve_markdown\<close> does
  not return \<open>True\<close>, it raises. The static handler is still not called.
\<close>

theorem serve_markdown_raises:
  "MARKDOWN_AVAILABLE sample_env
   \<and> path_exists (files sample_env) (stat_failure sample_env)
         (path_join (docs_root sample_env) (nihon @ lit ''.md'')) = Inr True
   \<and> serve_markdown sample_env (lit ''/'' @ nihon @ lit ''.md'') =
       (Inl (Exn ''UnicodeEncodeError''
          (39 # lit ''latin-1' codec can't encode characters in position 77-78: ordinal not in range(256)'')),
        [Open_file [lit ''srv'', lit ''docs'', nihon @ lit ''.md''],
         Raise (Exn ''UnicodeEncodeError''
          (39 # lit ''latin-1' codec can't encode characters in position 77-78: ordinal not in range(256)''))])
   \<and> fst (serve_markdown sample_env (lit ''/'' @ nihon @ lit ''.md'')) \<noteq> Inr True
   \<and> raised (do_GET sample_env (lit ''/%E6%97%A5%E6%9C%AC.html'')) =
       [Exn ''UnicodeEncodeError''
          (39 # lit ''latin-1' codec can't encode characters in position 77-78: ordinal not in range(256)'')]
   \<and> static_calls (do_GET sample_env (lit ''/%E6%97%A5%E6%9C%AC.html'')) = []"
proof -
  have s: "serve_markdown sample_env (lit ''/'' @ nihon @ lit ''.md'') =
       (Inl (Exn ''UnicodeEncodeError''
          (39 # lit ''latin-1' codec can't encode characters in position 77-78: ordinal not in range(256)'')),
        [Open_file [lit ''srv'', lit ''docs'', nihon @ lit ''.md''],
         Raise (Exn ''UnicodeEncodeError''
          (39 # lit ''latin-1' codec can't encode characters in position 77-78: ordinal not in range(256)''))])"
    using serve_markdown_candidate [of sample_env "lit ''/'' @ nihon @ lit ''.html''"]
    unfolding sample_nihon(3,4) sample_fields sample_nihon(5) sample_nihon(6)
      sample_nihon_render [unfolded sample_fields]
    by (simp add: sample_fields)
  have d: "do_GET sample_env (lit ''/%E6%97%A5%E6%9C%AC.html'') =
       [Open_file [lit ''srv'', lit ''docs'', nihon @ lit ''.md''],
        Raise (Exn ''UnicodeEncodeError''
          (39 # lit ''latin-1' codec can't encode characters in position 77-78: ordinal not in range(256)''))]"
    unfolding do_GET_eq [OF sample_nihon(1)] sample_nihon(3) sample_fields sample_nihon(5)
      sample_nihon(6) sample_nihon_render [unfolded sample_fields]
    by (simp add: sample_nihon(2) sample_fields)
  show ?thesis
    unfolding s d by (simp add: sample_fields sample_nihon)
qed

end
